theory Spec2Isabelle
  imports Complex_Main
begin

section \<open>Advanced lane finding: a shallow embedding of \<open>advanced_lane_lines.py\<close>\<close>

text \<open>
  The program is numerical Python over numpy arrays and OpenCV. Conventions of the model:
  \<^item> a two-dimensional numpy array is a list of rows (\<open>'a list list\<close>), all rows of one length;
  \<^item> Python and numpy integers (\<open>int64\<close> pixel coordinates, counts) are \<open>int\<close> or \<open>nat\<close>;
  \<^item> \<open>float64\<close> values are real numbers; arithmetic on finite values is exact, so rounding
    error of the hardware is not represented. Where the source divides, the IEEE special
    values that numpy returns for a zero divisor are represented (\<open>npfloat\<close>);
  \<^item> every \<open>raise\<close> of Python or of numpy is a value \<open>Inl e\<close> of a sum type;
  \<^item> functions of OpenCV and the least-squares solver behind \<open>np.polyfit\<close> are not part
    of the repository: they are parameters of the model, and every theorem holds for
    each value of these parameters;
  \<^item> the module-level globals \<open>left_line\<close>, \<open>right_line\<close> are an explicit session state
    that \<open>pipeline\<close> receives and returns.
\<close>

subsection \<open>Errors and numpy primitives\<close>

datatype error = TypeError | ValueError | UnboundLocalError

type_synonym 'a array2 = "'a list list"

text \<open>
  \<open>a.shape[0]\<close> and \<open>a.shape[1]\<close> of a two-dimensional array. A list of rows does
  not record the width of an array without rows: it is taken to be 0.
\<close>

definition shape0 :: "'a array2 \<Rightarrow> nat" where
  "shape0 a = length a"

definition shape1 :: "'a array2 \<Rightarrow> nat" where
  "shape1 a = (case a of [] \<Rightarrow> 0 | r # _ \<Rightarrow> length r)"

text \<open>Arrays are rectangular: every row has \<open>shape1\<close> entries.\<close>

definition rect :: "'a array2 \<Rightarrow> bool" where
  "rect a = list_all (\<lambda>r. length r = shape1 a) a"

text \<open>\<open>np.sum(rows, axis=0)\<close> for rows of width \<open>w\<close>: one sum per column.\<close>

definition np_sum_axis0 :: "nat \<Rightarrow> nat array2 \<Rightarrow> nat list" where
  "np_sum_axis0 w rows = map (\<lambda>x. sum_list (map (\<lambda>r. r ! x) rows)) [0..<w]"

text \<open>
  \<open>np.argmax\<close>: the index of the first occurrence of the maximum; \<open>ValueError\<close> on an
  empty sequence. \<open>argmax_aux best bv i vs\<close> scans \<open>vs\<close>, whose first element has index \<open>i\<close>,
  keeping the index \<open>best\<close> of the largest value \<open>bv\<close> seen so far; only a strictly larger
  value replaces it.
\<close>

fun argmax_aux :: "nat \<Rightarrow> nat \<Rightarrow> nat \<Rightarrow> nat list \<Rightarrow> nat" where
  "argmax_aux best bv i [] = best"
| "argmax_aux best bv i (v # vs) =
     (if bv < v then argmax_aux i v (Suc i) vs else argmax_aux best bv (Suc i) vs)"

definition np_argmax :: "nat list \<Rightarrow> error + nat" where
  "np_argmax xs = (case xs of [] \<Rightarrow> Inl ValueError | v # vs \<Rightarrow> Inr (argmax_aux 0 v 1 vs))"

text \<open>
  \<open>a.nonzero()\<close>: the coordinates \<open>(row, column)\<close> of the nonzero entries, in row-major
  order. \<open>nonzero[0]\<close> are the rows (y), \<open>nonzero[1]\<close> the columns (x).
\<close>

definition np_nonzero :: "nat array2 \<Rightarrow> (int \<times> int) list" where
  "np_nonzero a =
     concat (map (\<lambda>y. map (\<lambda>x. (int y, int x))
                          (filter (\<lambda>x. a ! y ! x \<noteq> 0) [0..<length (a ! y)]))
                 [0..<length a])"

text \<open>
  \<open>np.int(np.mean(xs))\<close> on integer coordinates: the mean, truncated towards zero.
\<close>

definition np_int_mean :: "int list \<Rightarrow> int" where
  "np_int_mean xs =
     (let s = sum_list xs; n = int (length xs)
      in if 0 \<le> s then s div n else - ((- s) div n))"

subsection \<open>Sliding-window search (\<open>find_lane_pixels\<close>)\<close>

definition nwindows :: nat where "nwindows = 9"
definition margin :: int where "margin = 100"
definition minpix :: nat where "minpix = 50"

text \<open>The loop state: the two current centres and the index arrays appended so far.\<close>

record window_state =
  leftx_current :: int
  rightx_current :: int
  left_lane_inds :: "nat list list"
  right_lane_inds :: "nat list list"

text \<open>
  The boolean mask of one window, as the indices (into the nonzero arrays) at which it
  holds: \<open>((nonzeroy >= y_low) & (nonzeroy < y_high) & (nonzerox >= x_low) &
  (nonzerox < x_high)).nonzero()[0]\<close>.
\<close>

definition good_inds :: "int list \<Rightarrow> int list \<Rightarrow> int \<Rightarrow> int \<Rightarrow> int \<Rightarrow> int \<Rightarrow> nat list" where
  "good_inds nonzeroy nonzerox win_y_low win_y_high win_x_low win_x_high =
     filter (\<lambda>i. nonzeroy ! i \<ge> win_y_low \<and> nonzeroy ! i < win_y_high \<and>
                 nonzerox ! i \<ge> win_x_low \<and> nonzerox ! i < win_x_high)
            [0..<length nonzeroy]"

text \<open>One iteration of \<open>for window in range(nwindows)\<close>.\<close>

definition window_step ::
  "int \<Rightarrow> int \<Rightarrow> int list \<Rightarrow> int list \<Rightarrow> window_state \<Rightarrow> nat \<Rightarrow> window_state" where
  "window_step height window_height nonzeroy nonzerox s window =
     (let win_y_low = height - (int window + 1) * window_height;
          win_y_high = height - int window * window_height;
          win_xleft_low = leftx_current s - margin;
          win_xleft_high = leftx_current s + margin;
          win_xright_low = rightx_current s - margin;
          win_xright_high = rightx_current s + margin;
          good_left_inds = good_inds nonzeroy nonzerox win_y_low win_y_high
                             win_xleft_low win_xleft_high;
          good_right_inds = good_inds nonzeroy nonzerox win_y_low win_y_high
                              win_xright_low win_xright_high
      in \<lparr> leftx_current =
             (if length good_left_inds > minpix
              then np_int_mean (map ((!) nonzerox) good_left_inds)
              else leftx_current s),
           rightx_current =
             (if length good_right_inds > minpix
              then np_int_mean (map ((!) nonzerox) good_right_inds)
              else rightx_current s),
           left_lane_inds = left_lane_inds s @ [good_left_inds],
           right_lane_inds = right_lane_inds s @ [good_right_inds] \<rparr>)"

text \<open>The histogram of the bottom half and the two base columns.\<close>

definition histogram :: "nat array2 \<Rightarrow> nat list" where
  "histogram binary_warped =
     np_sum_axis0 (shape1 binary_warped) (drop (shape0 binary_warped div 2) binary_warped)"

definition midpoint :: "nat array2 \<Rightarrow> nat" where
  "midpoint binary_warped = length (histogram binary_warped) div 2"

definition leftx_base :: "nat array2 \<Rightarrow> error + nat" where
  "leftx_base binary_warped =
     np_argmax (take (midpoint binary_warped) (histogram binary_warped))"

definition rightx_base :: "nat array2 \<Rightarrow> error + nat" where
  "rightx_base binary_warped =
     (case np_argmax (drop (midpoint binary_warped) (histogram binary_warped)) of
        Inl e \<Rightarrow> Inl e
      | Inr i \<Rightarrow> Inr (i + midpoint binary_warped))"

definition window_height :: "nat array2 \<Rightarrow> nat" where
  "window_height binary_warped = shape0 binary_warped div nwindows"

text \<open>
  The loop state after the first \<open>k\<close> windows, started at the centres \<open>lb\<close> and \<open>rb\<close>.
\<close>

definition windows_upto :: "nat array2 \<Rightarrow> nat \<Rightarrow> nat \<Rightarrow> nat \<Rightarrow> window_state" where
  "windows_upto binary_warped lb rb k =
     (let nonzero = np_nonzero binary_warped;
          nonzeroy = map fst nonzero;
          nonzerox = map snd nonzero
      in foldl (window_step (int (shape0 binary_warped)) (int (window_height binary_warped))
                  nonzeroy nonzerox)
           \<lparr> leftx_current = int lb, rightx_current = int rb,
             left_lane_inds = [], right_lane_inds = [] \<rparr>
           [0..<k])"

text \<open>
  \<open>find_lane_pixels\<close> returns \<open>(leftx, lefty, rightx, righty)\<close>. The visualisation image
  \<open>out_img\<close> it also returns is drawing only and is left out. \<open>np.concatenate\<close> of the nine
  index arrays cannot raise, so the \<open>except ValueError\<close> of the source is never entered.
\<close>

definition find_lane_pixels ::
  "nat array2 \<Rightarrow> error + (int list \<times> int list \<times> int list \<times> int list)" where
  "find_lane_pixels binary_warped =
     (case leftx_base binary_warped of
        Inl e \<Rightarrow> Inl e
      | Inr lb \<Rightarrow>
          (case rightx_base binary_warped of
             Inl e \<Rightarrow> Inl e
           | Inr rb \<Rightarrow>
               (let nonzero = np_nonzero binary_warped;
                    nonzeroy = map fst nonzero;
                    nonzerox = map snd nonzero;
                    s = windows_upto binary_warped lb rb nwindows;
                    left_inds = concat (left_lane_inds s);
                    right_inds = concat (right_lane_inds s)
                in Inr (map ((!) nonzerox) left_inds, map ((!) nonzeroy) left_inds,
                        map ((!) nonzerox) right_inds, map ((!) nonzeroy) right_inds))))"

subsection \<open>Polynomial fits and the least-squares solver\<close>

text \<open>
  A fit is the coefficient array of \<open>np.polyfit(..., deg = 2)\<close>, highest degree first:
  \<open>(a, b, c)\<close> stands for \<open>x = a*y**2 + b*y + c\<close>.
\<close>

type_synonym fit = "real \<times> real \<times> real"

text \<open>The expression \<open>fit[0]*y**2 + fit[1]*y + fit[2]\<close> that the source writes out.\<close>

definition eval_fit :: "fit \<Rightarrow> real \<Rightarrow> real" where
  "eval_fit f y = (case f of (a, b, c) \<Rightarrow> a * y\<^sup>2 + b * y + c)"

text \<open>
  \<open>np.polyfit(x, y, 2)\<close> is a library function: the model takes it as a parameter of this
  type (first the abscissae, then the ordinates), which may raise.
\<close>

type_synonym polyfit_fn = "real list \<Rightarrow> real list \<Rightarrow> error + fit"

text \<open>
  What numpy documents and implements for \<open>np.polyfit\<close>: \<open>TypeError\<close> for an empty
  vector \<open>x\<close> and for vectors of different lengths; otherwise the coefficients that the
  LAPACK least-squares routine returns (with only a \<open>RankWarning\<close>, no exception, when the
  system is rank deficient, as it is for fewer than three distinct abscissae). The
  least-squares routine is the parameter \<open>lstsq\<close>.
\<close>

definition np_polyfit :: "(real list \<Rightarrow> real list \<Rightarrow> fit) \<Rightarrow> polyfit_fn" where
  "np_polyfit lstsq x y =
     (if x = [] then Inl TypeError
      else if length x \<noteq> length y then Inl TypeError
      else Inr (lstsq x y))"

text \<open>
  An exact least-squares solver, used where a concrete solver is needed: it solves the
  normal equations of the quadratic fit by Cramer's rule. When their determinant is zero
  (fewer than three distinct abscissae) numpy returns a minimum-norm solution, which is
  irrational in general; this solver then returns the constant through the mean of the
  ordinates. No theorem below depends on the value in that case.
\<close>

definition lstsq_cramer :: "real list \<Rightarrow> real list \<Rightarrow> fit" where
  "lstsq_cramer ys xs =
     (let s0 = real (length ys);
          s1 = sum_list ys;
          s2 = sum_list (map (\<lambda>y. y\<^sup>2) ys);
          s3 = sum_list (map (\<lambda>y. y ^ 3) ys);
          s4 = sum_list (map (\<lambda>y. y ^ 4) ys);
          t0 = sum_list xs;
          t1 = sum_list (map (\<lambda>(y, x). x * y) (zip ys xs));
          t2 = sum_list (map (\<lambda>(y, x). x * y\<^sup>2) (zip ys xs));
          d = s4 * (s2 * s0 - s1 * s1) - s3 * (s3 * s0 - s1 * s2) + s2 * (s3 * s1 - s2 * s2);
          da = t2 * (s2 * s0 - s1 * s1) - s3 * (t1 * s0 - s1 * t0) + s2 * (t1 * s1 - s2 * t0);
          db = s4 * (t1 * s0 - t0 * s1) - t2 * (s3 * s0 - s1 * s2) + s2 * (s3 * t0 - s2 * t1);
          dc = s4 * (s2 * t0 - s1 * t1) - s3 * (s3 * t0 - s2 * t1) + t2 * (s3 * s1 - s2 * s2)
      in if d = 0 then (0, 0, t0 / s0) else (da / d, db / d, dc / d))"

text \<open>\<open>np.linspace(0, n - 1, n)\<close>: the row coordinates \<open>0, 1, ..., n - 1\<close> as floats.\<close>

definition np_linspace0 :: "nat \<Rightarrow> real list" where
  "np_linspace0 n = map real [0..<n]"

text \<open>
  \<open>fit_polynomial\<close> returns \<open>(left_fit, right_fit)\<close> (and the visualisation image, left
  out). The source then evaluates both fits on \<open>ploty\<close> inside \<open>try\<close>; its
  \<open>except TypeError\<close> branch would set the local curves to \<open>1*ploty**2 + 1*ploty\<close>. These
  curves are locals that the function does not return, and \<open>np.polyfit\<close> is called before
  the \<open>try\<close>, outside it: what it raises leaves \<open>fit_polynomial\<close>.
\<close>

definition fit_polynomial :: "polyfit_fn \<Rightarrow> nat array2 \<Rightarrow> error + (fit \<times> fit)" where
  "fit_polynomial polyfit binary_warped =
     (case find_lane_pixels binary_warped of
        Inl e \<Rightarrow> Inl e
      | Inr (leftx, lefty, rightx, righty) \<Rightarrow>
          (case polyfit (map real_of_int lefty) (map real_of_int leftx) of
             Inl e \<Rightarrow> Inl e
           | Inr left_fit \<Rightarrow>
               (case polyfit (map real_of_int righty) (map real_of_int rightx) of
                  Inl e \<Rightarrow> Inl e
                | Inr right_fit \<Rightarrow> Inr (left_fit, right_fit))))"

definition fit_poly ::
  "polyfit_fn \<Rightarrow> nat \<Rightarrow> int list \<Rightarrow> int list \<Rightarrow> int list \<Rightarrow> int list \<Rightarrow>
   error + (real list \<times> real list \<times> real list)" where
  "fit_poly polyfit img_shape0 leftx lefty rightx righty =
     (case polyfit (map real_of_int lefty) (map real_of_int leftx) of
        Inl e \<Rightarrow> Inl e
      | Inr left_fit \<Rightarrow>
          (case polyfit (map real_of_int righty) (map real_of_int rightx) of
             Inl e \<Rightarrow> Inl e
           | Inr right_fit \<Rightarrow>
               (let ploty = np_linspace0 img_shape0
                in Inr (map (eval_fit left_fit) ploty, map (eval_fit right_fit) ploty, ploty))))"

subsection \<open>Search around the previous fit (\<open>search_around_poly\<close>)\<close>

text \<open>
  The pixels selected by one mask of \<open>search_around_poly\<close>: those nonzero pixels whose
  column is strictly within \<open>margin\<close> of the previous fit at their row.
\<close>

definition around_poly :: "fit \<Rightarrow> (int \<times> int) list \<Rightarrow> (int \<times> int) list" where
  "around_poly f nonzero =
     filter (\<lambda>(y, x). real_of_int x > eval_fit f (real_of_int y) - real_of_int margin \<and>
                       real_of_int x < eval_fit f (real_of_int y) + real_of_int margin)
            nonzero"

text \<open>
  The previous fits are \<open>None\<close> until a frame has completed; subscripting \<open>None\<close> raises
  \<open>TypeError\<close>. The left mask is computed first.
\<close>

definition search_around_poly ::
  "polyfit_fn \<Rightarrow> nat array2 \<Rightarrow> fit option \<Rightarrow> fit option \<Rightarrow> error + (fit \<times> fit)" where
  "search_around_poly polyfit binary_warped left_fit right_fit =
     (case left_fit of
        None \<Rightarrow> Inl TypeError
      | Some lf \<Rightarrow>
          (case right_fit of
             None \<Rightarrow> Inl TypeError
           | Some rf \<Rightarrow>
               (let nonzero = np_nonzero binary_warped;
                    left = around_poly lf nonzero;
                    right = around_poly rf nonzero;
                    leftx = map snd left; lefty = map fst left;
                    rightx = map snd right; righty = map fst right
                in case polyfit (map real_of_int lefty) (map real_of_int leftx) of
                     Inl e \<Rightarrow> Inl e
                   | Inr left_fit' \<Rightarrow>
                       (case polyfit (map real_of_int righty) (map real_of_int rightx) of
                          Inl e \<Rightarrow> Inl e
                        | Inr right_fit' \<Rightarrow>
                            (case fit_poly polyfit (shape0 binary_warped)
                                    leftx lefty rightx righty of
                               Inl e \<Rightarrow> Inl e
                             | Inr _ \<Rightarrow> Inr (left_fit', right_fit'))))))"

subsection \<open>Curvature and lateral offset (\<open>curvature_in_meters\<close>)\<close>

text \<open>
  A numpy float: a finite value, or one of the IEEE special values. numpy's float division
  does not raise on a zero divisor (it warns): it returns an infinity, or NaN for \<open>0/0\<close>.
\<close>

datatype npfloat = Fin real | PInf | NInf | NaN

definition np_divide :: "real \<Rightarrow> real \<Rightarrow> npfloat" where
  "np_divide n d =
     (if d \<noteq> 0 then Fin (n / d)
      else if 0 < n then PInf else if n < 0 then NInf else NaN)"

text \<open>\<open>np.max\<close> of a one-dimensional array: \<open>ValueError\<close> when it is empty.\<close>

definition np_max1 :: "real list \<Rightarrow> error + real" where
  "np_max1 xs = (case xs of [] \<Rightarrow> Inl ValueError | v # vs \<Rightarrow> Inr (fold max vs v))"

text \<open>
  \<open>round(x, 2)\<close> on a numpy float: \<open>x * 100\<close> rounded to the nearest integer, ties to the
  even one, divided by 100.
\<close>

definition round_half_even :: "real \<Rightarrow> int" where
  "round_half_even v =
     (let f = \<lfloor>v\<rfloor>; r = v - real_of_int f
      in if r < 1 / 2 then f else if 1 / 2 < r then f + 1
         else if even f then f else f + 1)"

definition round2 :: "real \<Rightarrow> real" where
  "round2 x = real_of_int (round_half_even (x * 100)) / 100"

definition ym_per_pix :: real where "ym_per_pix = 30 / 720"
definition xm_per_pix :: real where "xm_per_pix = 37 / 10 / 700"

text \<open>
  The two vectors handed to \<open>np.polyfit\<close> for the fit in metres: the rows
  \<open>ys = np.linspace(0, height - 1, height)\<close> and the values of the pixel-space fit on
  them, each scaled to metres.
\<close>

definition metric_samples :: "nat \<Rightarrow> fit \<Rightarrow> real list \<times> real list" where
  "metric_samples height f =
     (let ys = np_linspace0 height;
          xs = map (eval_fit f) ys
      in (map (\<lambda>y. y * ym_per_pix) ys, map (\<lambda>x. x * xm_per_pix) xs))"

text \<open>The radius \<open>((1 + (2*a*y_eval*ym_per_pix + b)**2)**1.5) / np.absolute(2*a)\<close>.\<close>

definition curverad :: "fit \<Rightarrow> real \<Rightarrow> npfloat" where
  "curverad fit_cr y_eval =
     (case fit_cr of (a, b, c) \<Rightarrow>
        np_divide ((1 + (2 * a * y_eval * ym_per_pix + b)\<^sup>2) powr (3 / 2)) \<bar>2 * a\<bar>)"

text \<open>The last five lines: \<open>dist_from_center\<close> from the two pixel-space fits.\<close>

definition dist_from_center :: "nat \<Rightarrow> nat \<Rightarrow> fit \<Rightarrow> fit \<Rightarrow> real" where
  "dist_from_center height width left_fit right_fit =
     (let position = width div 2;
          left_intercept = eval_fit left_fit (real height);
          right_intercept = eval_fit right_fit (real height);
          center = (left_intercept + right_intercept) / 2
      in round2 ((real position - center) * xm_per_pix))"

text \<open>
  The fit in metres of one lane, \<open>np.polyfit(ys*ym_per_pix, x*xm_per_pix, 2)\<close>, where
  \<open>x\<close> are the values of the lane's pixel-space fit on \<open>ys\<close>.
\<close>

definition metric_fit :: "polyfit_fn \<Rightarrow> nat \<Rightarrow> fit \<Rightarrow> error + fit" where
  "metric_fit polyfit height f =
     polyfit (fst (metric_samples height f)) (snd (metric_samples height f))"

definition curvature_in_meters ::
  "polyfit_fn \<Rightarrow> nat array2 \<Rightarrow> fit \<Rightarrow> fit \<Rightarrow> error + (npfloat \<times> npfloat \<times> real)" where
  "curvature_in_meters polyfit binary_image left_fit right_fit =
     (let height = shape0 binary_image;
          width = shape1 binary_image;
          ys = np_linspace0 height
      in case metric_fit polyfit height left_fit of
           Inl e \<Rightarrow> Inl e
         | Inr left_fit_cr \<Rightarrow>
             (case metric_fit polyfit height right_fit of
                Inl e \<Rightarrow> Inl e
              | Inr right_fit_cr \<Rightarrow>
                  (case np_max1 ys of
                     Inl e \<Rightarrow> Inl e
                   | Inr y_eval \<Rightarrow>
                       Inr (curverad left_fit_cr y_eval, curverad right_fit_cr y_eval,
                            dist_from_center height width left_fit right_fit))))"

subsection \<open>Thresholding (\<open>combined_thresh\<close> and the six masks)\<close>

type_synonym rgb = "nat \<times> nat \<times> nat"
type_synonym quad = "(real \<times> real) list"

text \<open>
  The OpenCV functions the program calls, and the one platform-defined conversion:
  \<^item> \<open>cv_undistort\<close>: \<open>cv2.undistort(image, mtx, dist, None, mtx)\<close> for the session's
    calibration \<open>dist_pickle\<close>;
  \<^item> \<open>cv_gray\<close>: \<open>cv2.cvtColor(img, cv2.COLOR_RGB2GRAY)\<close>;
  \<^item> \<open>cv_Sobel gray dx dy\<close>: \<open>cv2.Sobel(gray, cv2.CV_64F, dx, dy)\<close> with kernel size 3;
  \<^item> \<open>cv_hls\<close>: \<open>cv2.cvtColor(img, cv2.COLOR_RGB2HLS)\<close>, a triple (H, L, S) per pixel;
  \<^item> \<open>cast_nan\<close>: the \<open>uint8\<close> that a cast of NaN or of an infinity yields, which numpy
    leaves to the platform;
  \<^item> \<open>cv_getPerspectiveTransform\<close>, \<open>cv_warpPerspective\<close> (with \<open>INTER_LINEAR\<close>);
  \<^item> \<open>cv_overlay\<close>: the drawing calls of \<open>draw_lines_on_image\<close> (\<open>fillPoly\<close>,
    \<open>warpPerspective\<close>, \<open>addWeighted\<close>);
  \<^item> \<open>cv_putText\<close>: the three \<open>cv2.putText\<close> calls of \<open>print_data_on_image\<close>.
\<close>

record cv =
  cv_undistort :: "rgb array2 \<Rightarrow> rgb array2"
  cv_gray :: "rgb array2 \<Rightarrow> nat array2"
  cv_Sobel :: "nat array2 \<Rightarrow> nat \<Rightarrow> nat \<Rightarrow> real array2"
  cv_hls :: "rgb array2 \<Rightarrow> rgb array2"
  cast_nan :: nat
  cv_getPerspectiveTransform :: "quad \<Rightarrow> quad \<Rightarrow> real array2"
  cv_warpPerspective :: "nat array2 \<Rightarrow> real array2 \<Rightarrow> nat \<times> nat \<Rightarrow> nat array2"
  cv_overlay :: "rgb array2 \<Rightarrow> nat \<times> nat \<Rightarrow> (real \<times> real) list \<Rightarrow> real array2 \<Rightarrow> rgb array2"
  cv_putText :: "rgb array2 \<Rightarrow> npfloat \<Rightarrow> npfloat \<Rightarrow> real \<Rightarrow> rgb array2"

text \<open>Elementwise operations on arrays of one shape.\<close>

definition map2d :: "('a \<Rightarrow> 'b) \<Rightarrow> 'a array2 \<Rightarrow> 'b array2" where
  "map2d f a = map (map f) a"

definition zip2d :: "('a \<Rightarrow> 'b \<Rightarrow> 'c) \<Rightarrow> 'a array2 \<Rightarrow> 'b array2 \<Rightarrow> 'c array2" where
  "zip2d f a b = map2 (map2 f) a b"

text \<open>\<open>np.max\<close> of a two-dimensional array.\<close>

definition np_max :: "real array2 \<Rightarrow> error + real" where
  "np_max a = np_max1 (concat a)"

text \<open>
  Conversion of a float to \<open>uint8\<close> (\<open>np.uint8(...)\<close>, \<open>astype(np.uint8)\<close>): the fraction is
  dropped and the integer wraps modulo 256.
\<close>

definition np_uint8 :: "nat \<Rightarrow> npfloat \<Rightarrow> nat" where
  "np_uint8 nan_value v =
     (case v of
        Fin r \<Rightarrow> nat ((if 0 \<le> r then \<lfloor>r\<rfloor> else \<lceil>r\<rceil>) mod 256)
      | _ \<Rightarrow> nan_value)"

text \<open>The mask \<open>(v >= thresh[0]) & (v <= thresh[1])\<close>, as 0 or 1.\<close>

definition mask_incl :: "'a::linorder \<times> 'a \<Rightarrow> 'a \<Rightarrow> nat" where
  "mask_incl thresh v = (if v \<ge> fst thresh \<and> v \<le> snd thresh then 1 else 0)"

text \<open>The mask \<open>(v > thresh[0]) & (v <= thresh[1])\<close>, as 0 or 1.\<close>

definition mask_excl_incl :: "'a::linorder \<times> 'a \<Rightarrow> 'a \<Rightarrow> nat" where
  "mask_excl_incl thresh v = (if v > fst thresh \<and> v \<le> snd thresh then 1 else 0)"

text \<open>
  \<open>scaled_sobel = np.uint8(255*abs_sobel/np.max(abs_sobel))\<close>. There is no test of the
  maximum: for a maximum of 0 the division is \<open>0/0\<close>.
\<close>

definition scaled_sobel :: "cv \<Rightarrow> real array2 \<Rightarrow> error + nat array2" where
  "scaled_sobel c abs_sobel =
     (case np_max abs_sobel of
        Inl e \<Rightarrow> Inl e
      | Inr m \<Rightarrow> Inr (map2d (\<lambda>a. np_uint8 (cast_nan c) (np_divide (255 * a) m)) abs_sobel))"

definition abs_sobel_thresh ::
  "cv \<Rightarrow> rgb array2 \<Rightarrow> string \<Rightarrow> int \<times> int \<Rightarrow> error + nat array2" where
  "abs_sobel_thresh c img orient thresh =
     (let gray = cv_gray c img
      in if orient \<noteq> ''x'' \<and> orient \<noteq> ''y'' then Inl UnboundLocalError
         else
           (let x = (if orient = ''x'' then 1 else 0::nat);
                y = 1 - x;
                sobel = cv_Sobel c gray x y;
                abs_sobel = map2d abs sobel
            in case scaled_sobel c abs_sobel of
                 Inl e \<Rightarrow> Inl e
               | Inr scaled \<Rightarrow> Inr (map2d (\<lambda>v. mask_incl thresh (int v)) scaled)))"

text \<open>
  \<open>scale_factor = np.max(magnitude)/255\<close> and
  \<open>(magnitude/scale_factor).astype(np.uint8)\<close>.
\<close>

definition scaled_magnitude :: "cv \<Rightarrow> real array2 \<Rightarrow> error + nat array2" where
  "scaled_magnitude c magnitude =
     (case np_max magnitude of
        Inl e \<Rightarrow> Inl e
      | Inr m \<Rightarrow>
          (let scale_factor = m / 255
           in Inr (map2d (\<lambda>v. np_uint8 (cast_nan c) (np_divide v scale_factor)) magnitude)))"

definition mag_thresh :: "cv \<Rightarrow> rgb array2 \<Rightarrow> int \<times> int \<Rightarrow> error + nat array2" where
  "mag_thresh c img thresh =
     (let gray = cv_gray c img;
          sobelx = cv_Sobel c gray 1 0;
          sobely = cv_Sobel c gray 0 1;
          magnitude = zip2d (\<lambda>sx sy. sqrt (sx\<^sup>2 + sy\<^sup>2)) sobelx sobely
      in case scaled_magnitude c magnitude of
           Inl e \<Rightarrow> Inl e
         | Inr scaled \<Rightarrow> Inr (map2d (\<lambda>v. mask_incl thresh (int v)) scaled))"

text \<open>\<open>np.arctan2(y, x)\<close>.\<close>

definition np_arctan2 :: "real \<Rightarrow> real \<Rightarrow> real" where
  "np_arctan2 y x =
     (if 0 < x then arctan (y / x)
      else if x < 0 then (if 0 \<le> y then arctan (y / x) + pi else arctan (y / x) - pi)
      else if 0 < y then pi / 2 else if y < 0 then - pi / 2 else 0)"

definition dir_thresh :: "cv \<Rightarrow> rgb array2 \<Rightarrow> real \<times> real \<Rightarrow> nat array2" where
  "dir_thresh c img thresh =
     (let gray = cv_gray c img;
          sobelx = cv_Sobel c gray 1 0;
          sobely = cv_Sobel c gray 0 1;
          abs_sobelx = map2d abs sobelx;
          abs_sobely = map2d abs sobely;
          direction_gradient = zip2d np_arctan2 abs_sobely abs_sobelx
      in map2d (mask_incl thresh) direction_gradient)"

definition hue_thresh :: "cv \<Rightarrow> rgb array2 \<Rightarrow> int \<times> int \<Rightarrow> nat array2" where
  "hue_thresh c img thresh =
     (let image_hls = cv_hls c img;
          H = map2d (\<lambda>(h, l, s). h) image_hls
      in map2d (\<lambda>v. mask_excl_incl thresh (int v)) H)"

definition saturation_thresh :: "cv \<Rightarrow> rgb array2 \<Rightarrow> int \<times> int \<Rightarrow> nat array2" where
  "saturation_thresh c img thresh =
     (let image_hls = cv_hls c img;
          S = map2d (\<lambda>(h, l, s). s) image_hls
      in map2d (\<lambda>v. mask_excl_incl thresh (int v)) S)"

text \<open>
  The combination. In Python \<open>&\<close> binds tighter than \<open>|\<close>, so the mask is
  \<open>(gradx & grady & mag & dir) | (h & s)\<close>. The result has the shape of \<open>gradx\<close>
  (\<open>np.zeros_like(gradx)\<close>).
\<close>

definition combined_thresh ::
  "cv \<Rightarrow> rgb array2 \<Rightarrow> int \<times> int \<Rightarrow> int \<times> int \<Rightarrow> real \<times> real \<Rightarrow> int \<times> int \<Rightarrow> int \<times> int \<Rightarrow>
   error + nat array2" where
  "combined_thresh c img abs_thresh magnitude_thresh angle_thresh h_thresh s_thresh =
     (case abs_sobel_thresh c img ''x'' abs_thresh of
        Inl e \<Rightarrow> Inl e
      | Inr gradx \<Rightarrow>
          (case abs_sobel_thresh c img ''y'' abs_thresh of
             Inl e \<Rightarrow> Inl e
           | Inr grady \<Rightarrow>
               (case mag_thresh c img magnitude_thresh of
                  Inl e \<Rightarrow> Inl e
                | Inr mag_binary \<Rightarrow>
                    (let dir_binary = dir_thresh c img angle_thresh;
                         h_binary = hue_thresh c img h_thresh;
                         s_binary = saturation_thresh c img s_thresh
                     in Inr (map (\<lambda>i. map (\<lambda>j.
                               if (gradx ! i ! j = 1 \<and> grady ! i ! j = 1 \<and>
                                   mag_binary ! i ! j = 1 \<and> dir_binary ! i ! j = 1) \<or>
                                  (h_binary ! i ! j = 1 \<and> s_binary ! i ! j = 1)
                               then 1 else 0) [0..<length (gradx ! i)])
                             [0..<length gradx])))))"

text \<open>The default arguments of \<open>combined_thresh\<close>.\<close>

definition default_abs_thresh :: "int \<times> int" where "default_abs_thresh = (20, 100)"
definition default_magnitude_thresh :: "int \<times> int" where "default_magnitude_thresh = (30, 100)"
definition default_angle_thresh :: "real \<times> real" where "default_angle_thresh = (7 / 10, 14 / 10)"
definition default_h_thresh :: "int \<times> int" where "default_h_thresh = (10, 35)"
definition default_s_thresh :: "int \<times> int" where "default_s_thresh = (120, 255)"

definition combined_thresh_default :: "cv \<Rightarrow> rgb array2 \<Rightarrow> error + nat array2" where
  "combined_thresh_default c img =
     combined_thresh c img default_abs_thresh default_magnitude_thresh default_angle_thresh
       default_h_thresh default_s_thresh"

subsection \<open>Perspective transform\<close>

text \<open>
  The two quadrilaterals of \<open>perspective_transform\<close>, for \<open>image_size = (w, h)\<close>. The
  arguments \<open>source\<close> and \<open>destination\<close> of the function are overwritten before use.
\<close>

definition source_quad :: "nat \<Rightarrow> nat \<Rightarrow> quad" where
  "source_quad w h =
     [(real w / 2 - 55, real h / 2 + 100),
      (real w / 6 - 10, real h),
      (real w * 5 / 6 + 60, real h),
      (real w / 2 + 55, real h / 2 + 100)]"

definition destination_quad :: "nat \<Rightarrow> nat \<Rightarrow> quad" where
  "destination_quad w h =
     [(real w / 4, 0),
      (real w / 4, real h),
      (real w * 3 / 4, real h),
      (real w * 3 / 4, 0)]"

definition perspective_transform ::
  "cv \<Rightarrow> nat array2 \<Rightarrow> nat array2 \<times> real array2 \<times> real array2" where
  "perspective_transform c img =
     (let image_size = (shape1 img, shape0 img);
          source = source_quad (fst image_size) (snd image_size);
          destination = destination_quad (fst image_size) (snd image_size);
          M = cv_getPerspectiveTransform c source destination;
          Minv = cv_getPerspectiveTransform c destination source;
          warped = cv_warpPerspective c img M image_size
      in (warped, Minv, M))"

subsection \<open>Drawing\<close>

definition draw_lines_on_image ::
  "cv \<Rightarrow> rgb array2 \<Rightarrow> nat array2 \<Rightarrow> fit \<Rightarrow> fit \<Rightarrow> real array2 \<Rightarrow> rgb array2" where
  "draw_lines_on_image c original_img binary_img left_fit right_fit Minv =
     (let ploty = np_linspace0 (shape0 binary_img);
          left_fitx = map (eval_fit left_fit) ploty;
          right_fitx = map (eval_fit right_fit) ploty;
          pts_left = zip left_fitx ploty;
          pts_right = rev (zip right_fitx ploty);
          pts = pts_left @ pts_right
      in cv_overlay c original_img (shape0 binary_img, shape1 binary_img) pts Minv)"

definition print_data_on_image ::
  "cv \<Rightarrow> rgb array2 \<Rightarrow> npfloat \<Rightarrow> npfloat \<Rightarrow> real \<Rightarrow> rgb array2" where
  "print_data_on_image c img left_curverad right_curverad dfc =
     cv_putText c img left_curverad right_curverad dfc"

subsection \<open>The tracker state and the pipeline\<close>

text \<open>
  The class \<open>Line\<close>. Its three fields for the radii and the distance are set to \<open>None\<close> by
  the constructor and never assigned again.
\<close>

record Line =
  found :: bool
  previous_fit :: "fit option"
  line_radii :: "(npfloat \<times> npfloat \<times> real) option"

definition new_Line :: Line where
  "new_Line = \<lparr> found = False, previous_fit = None, line_radii = None \<rparr>"

text \<open>The globals \<open>left_line\<close> and \<open>right_line\<close>.\<close>

record session =
  left_line :: Line
  right_line :: Line

definition new_session :: session where
  "new_session = \<lparr> left_line = new_Line, right_line = new_Line \<rparr>"

text \<open>The choice of the search (the \<open>if\<close> of \<open>pipeline\<close>).\<close>

definition fit_lanes :: "polyfit_fn \<Rightarrow> session \<Rightarrow> nat array2 \<Rightarrow> error + (fit \<times> fit)" where
  "fit_lanes polyfit st binary_warped =
     (if found (left_line st) = False \<or> found (right_line st) = False
      then fit_polynomial polyfit binary_warped
      else search_around_poly polyfit binary_warped
             (previous_fit (left_line st)) (previous_fit (right_line st)))"

text \<open>
  \<open>binary_warped\<close> of a frame: undistortion, thresholding with the default arguments and
  the perspective transform.
\<close>

definition warp_frame :: "cv \<Rightarrow> rgb array2 \<Rightarrow> error + (nat array2 \<times> real array2)" where
  "warp_frame c img =
     (let undistorted = cv_undistort c img
      in case combined_thresh_default c undistorted of
           Inl e \<Rightarrow> Inl e
         | Inr thresholded \<Rightarrow>
             (case perspective_transform c thresholded of
                (binary_warped, Minv, M) \<Rightarrow> Inr (binary_warped, Minv)))"

text \<open>
  \<open>pipeline\<close> on one frame. It returns the annotated image or the exception raised,
  together with the session state afterwards. The two assignments to the globals are the
  last statements before \<open>return\<close>: an exception raised earlier leaves the state as it
  was.
\<close>

definition pipeline ::
  "cv \<Rightarrow> polyfit_fn \<Rightarrow> session \<Rightarrow> rgb array2 \<Rightarrow> (error + rgb array2) \<times> session" where
  "pipeline c polyfit st img =
     (case warp_frame c img of
        Inl e \<Rightarrow> (Inl e, st)
      | Inr (binary_warped, Minv) \<Rightarrow>
          (case fit_lanes polyfit st binary_warped of
             Inl e \<Rightarrow> (Inl e, st)
           | Inr (left_fit, right_fit) \<Rightarrow>
               (let plotted_lane =
                      draw_lines_on_image c img binary_warped left_fit right_fit Minv
                in case curvature_in_meters polyfit binary_warped left_fit right_fit of
                     Inl e \<Rightarrow> (Inl e, st)
                   | Inr (left_curverad, right_curverad, dfc) \<Rightarrow>
                       (let printed_data_on_image =
                              print_data_on_image c plotted_lane
                                left_curverad right_curverad dfc
                        in (Inr printed_data_on_image,
                            st \<lparr> left_line := (left_line st)
                                    \<lparr> previous_fit := Some left_fit, found := True \<rparr>,
                                 right_line := (right_line st)
                                    \<lparr> previous_fit := Some right_fit, found := True \<rparr> \<rparr>)))))"

text \<open>
  A session: \<open>pipeline\<close> applied to the frames of a clip in order. The driver keeps the
  state after each call; the results are collected.
\<close>

fun run_frames ::
  "cv \<Rightarrow> polyfit_fn \<Rightarrow> session \<Rightarrow> rgb array2 list \<Rightarrow> (error + rgb array2) list \<times> session" where
  "run_frames c polyfit st [] = ([], st)"
| "run_frames c polyfit st (img # imgs) =
     (case pipeline c polyfit st img of
        (r, st') \<Rightarrow>
          (case run_frames c polyfit st' imgs of
             (rs, st'') \<Rightarrow> (r # rs, st'')))"

subsection \<open>Notions used to state the properties\<close>

text \<open>Two arrays have the same shape: the same number of rows, of the same lengths.\<close>

definition same_shape :: "'a array2 \<Rightarrow> 'b array2 \<Rightarrow> bool" where
  "same_shape a b = (map length a = map length b)"

text \<open>
  The rows of window number \<open>window\<close> (the values \<open>win_y_low\<close> and \<open>win_y_high\<close> of the loop)
  and the test of one pixel \<open>(y, x)\<close> against the window around the centre \<open>c\<close>.
\<close>

definition win_y_low :: "nat array2 \<Rightarrow> nat \<Rightarrow> int" where
  "win_y_low binary_warped window =
     int (shape0 binary_warped) - (int window + 1) * int (window_height binary_warped)"

definition win_y_high :: "nat array2 \<Rightarrow> nat \<Rightarrow> int" where
  "win_y_high binary_warped window =
     int (shape0 binary_warped) - int window * int (window_height binary_warped)"

definition in_window :: "nat array2 \<Rightarrow> nat \<Rightarrow> int \<Rightarrow> int \<times> int \<Rightarrow> bool" where
  "in_window binary_warped window c p =
     (case p of (y, x) \<Rightarrow>
        win_y_low binary_warped window \<le> y \<and> y < win_y_high binary_warped window \<and>
        c - margin \<le> x \<and> x < c + margin)"

text \<open>The exact mean of integer coordinates, as a real number.\<close>

definition mean_of :: "int list \<Rightarrow> real" where
  "mean_of xs = real_of_int (sum_list xs) / real (length xs)"

text \<open>Both lanes are marked as found.\<close>

definition both_found :: "session \<Rightarrow> bool" where
  "both_found st = (found (left_line st) \<and> found (right_line st))"



subsection \<open>A concrete environment and concrete frames\<close>

text \<open>
  A plain environment in which the pipeline can be run on small frames: no lens
  distortion, a frame given directly in hue, lightness and saturation, zero gradients,
  identity perspective maps and no drawing.
\<close>

definition identity3 :: "real array2" where
  "identity3 = [[1, 0, 0], [0, 1, 0], [0, 0, 1]]"

definition cv_plain :: cv where
  "cv_plain =
     \<lparr> cv_undistort = (\<lambda>img. img),
       cv_gray = map2d (\<lambda>(r, g, b). (r + g + b) div 3),
       cv_Sobel = (\<lambda>gray dx dy. map2d (\<lambda>v. 0) gray),
       cv_hls = (\<lambda>img. img),
       cast_nan = 0,
       cv_getPerspectiveTransform = (\<lambda>src dst. identity3),
       cv_warpPerspective = (\<lambda>img M size. img),
       cv_overlay = (\<lambda>img shape pts Minv. img),
       cv_putText = (\<lambda>img l r d. img) \<rparr>"

text \<open>
  A colour for each value of a binary frame: hue 20 and saturation 200 pass the two colour
  thresholds, black does not.
\<close>

definition paint :: "nat \<Rightarrow> rgb" where
  "paint v = (if v = 0 then (0, 0, 0) else (20, 0, 200))"

text \<open>
  Frame A (9 rows, 12 columns): three lit pixels \<open>(y, x) = (6, 0), (7, 0), (8, 11)\<close>.
  Frame B: three lit pixels in column 0 of the rows 0, 1 and 2.
\<close>

definition bw_A :: "nat array2" where
  "bw_A = replicate 6 (replicate 12 0) @
          [(replicate 12 0)[0 := 1], (replicate 12 0)[0 := 1], (replicate 12 0)[11 := 1]]"

definition bw_B :: "nat array2" where
  "bw_B = replicate 3 ((replicate 12 0)[0 := 1]) @ replicate 6 (replicate 12 0)"

definition frame_A :: "rgb array2" where "frame_A = map2d paint bw_A"
definition frame_B :: "rgb array2" where "frame_B = map2d paint bw_B"


definition bw_D :: "nat array2" where
  "bw_D = [(replicate 52 0)[0 := 1]] @ replicate 8 (replicate 52 0) @ [replicate 52 1]"

text \<open>Frame E (3 rows, 2 columns), all dark: only its shape is used.\<close>

definition bw_E :: "nat array2" where
  "bw_E = [[0, 0], [0, 0], [0, 0]]"

text \<open>
  The fit of frame A by sliding windows (both lanes collect its three pixels), and the
  session state after frame A has been processed from a new session.
\<close>

definition fit_A :: fit where
  "fit_A = (11 / 2, - (143 / 2), 231)"

definition session_A :: session where
  "session_A =
     \<lparr> left_line = \<lparr> found = True, previous_fit = Some fit_A, line_radii = None \<rparr>,
       right_line = \<lparr> found = True, previous_fit = Some fit_A, line_radii = None \<rparr> \<rparr>"

section \<open>Properties\<close>

subsection \<open>Thresholding\<close>

lemma same_shape_length: "same_shape a b \<Longrightarrow> length a = length b"
  unfolding same_shape_def by (metis length_map)

lemma same_shape_row: "same_shape a b \<Longrightarrow> i < length b \<Longrightarrow> length (a ! i) = length (b ! i)"
  unfolding same_shape_def by (metis length_map nth_map)

lemma same_shape_map2d: "same_shape (map2d f a) a"
  by (simp add: same_shape_def map2d_def)

lemma same_shape_trans: "same_shape a b \<Longrightarrow> same_shape b c \<Longrightarrow> same_shape a c"
  by (simp add: same_shape_def)

lemma map2d_nth:
  "i < length a \<Longrightarrow> j < length (a ! i) \<Longrightarrow> map2d f a ! i ! j = f (a ! i ! j)"
  by (simp add: map2d_def)

lemma zip2d_nth:
  "i < length a \<Longrightarrow> i < length b \<Longrightarrow> j < length (a ! i) \<Longrightarrow> j < length (b ! i) \<Longrightarrow>
   zip2d f a b ! i ! j = f (a ! i ! j) (b ! i ! j)"
  by (simp add: zip2d_def)

lemma scaled_sobel_Inr:
  assumes "scaled_sobel c a = Inr s"
  shows "\<exists>m. np_max a = Inr m \<and> s = map2d (\<lambda>v. np_uint8 (cast_nan c) (np_divide (255 * v) m)) a"
  using assms by (auto simp: scaled_sobel_def split: sum.splits)

lemma scaled_magnitude_Inr:
  assumes "scaled_magnitude c a = Inr s"
  shows "\<exists>m. np_max a = Inr m \<and> s = map2d (\<lambda>v. np_uint8 (cast_nan c) (np_divide v (m / 255))) a"
  using assms by (auto simp: scaled_magnitude_def Let_def split: sum.splits)

lemma mask_incl_eq_1: "mask_incl t v = 1 \<longleftrightarrow> fst t \<le> v \<and> v \<le> snd t"
  by (simp add: mask_incl_def)

lemma mask_excl_incl_eq_1: "mask_excl_incl t v = 1 \<longleftrightarrow> fst t < v \<and> v \<le> snd t"
  by (simp add: mask_excl_incl_def)

lemma abs_sobel_thresh_x:
  "abs_sobel_thresh c img ''x'' t =
     (case scaled_sobel c (map2d abs (cv_Sobel c (cv_gray c img) 1 0)) of
        Inl e \<Rightarrow> Inl e | Inr s \<Rightarrow> Inr (map2d (\<lambda>v. mask_incl t (int v)) s))"
  by (simp add: abs_sobel_thresh_def Let_def)

lemma abs_sobel_thresh_y:
  "abs_sobel_thresh c img ''y'' t =
     (case scaled_sobel c (map2d abs (cv_Sobel c (cv_gray c img) 0 1)) of
        Inl e \<Rightarrow> Inl e | Inr s \<Rightarrow> Inr (map2d (\<lambda>v. mask_incl t (int v)) s))"
  by (simp add: abs_sobel_thresh_def Let_def)

text \<open>The six values of a pixel on which the combination depends.\<close>

lemma combined_thresh_pixel:
  assumes sx: "scaled_sobel c (map2d abs (cv_Sobel c (cv_gray c img) 1 0)) = Inr sx"
      and sy: "scaled_sobel c (map2d abs (cv_Sobel c (cv_gray c img) 0 1)) = Inr sy"
      and mg: "scaled_magnitude c
                 (zip2d (\<lambda>sx sy. sqrt (sx\<^sup>2 + sy\<^sup>2)) (cv_Sobel c (cv_gray c img) 1 0)
                    (cv_Sobel c (cv_gray c img) 0 1)) = Inr mg"
      and shx: "same_shape (cv_Sobel c (cv_gray c img) 1 0) img"
      and shy: "same_shape (cv_Sobel c (cv_gray c img) 0 1) img"
      and shh: "same_shape (cv_hls c img) img"
      and i: "i < length img" and j: "j < length (img ! i)"
  shows "\<exists>out. combined_thresh c img ta tm td th ts = Inr out \<and>
           length out = length img \<and> length (out ! i) = length (img ! i) \<and>
           out ! i ! j =
             (if (fst ta \<le> int (sx ! i ! j) \<and> int (sx ! i ! j) \<le> snd ta \<and>
                  fst ta \<le> int (sy ! i ! j) \<and> int (sy ! i ! j) \<le> snd ta \<and>
                  fst tm \<le> int (mg ! i ! j) \<and> int (mg ! i ! j) \<le> snd tm \<and>
                  fst td \<le> np_arctan2 \<bar>cv_Sobel c (cv_gray c img) 0 1 ! i ! j\<bar>
                                      \<bar>cv_Sobel c (cv_gray c img) 1 0 ! i ! j\<bar> \<and>
                  np_arctan2 \<bar>cv_Sobel c (cv_gray c img) 0 1 ! i ! j\<bar>
                             \<bar>cv_Sobel c (cv_gray c img) 1 0 ! i ! j\<bar> \<le> snd td) \<or>
                 (fst th < int (fst (cv_hls c img ! i ! j)) \<and>
                  int (fst (cv_hls c img ! i ! j)) \<le> snd th \<and>
                  fst ts < int (snd (snd (cv_hls c img ! i ! j))) \<and>
                  int (snd (snd (cv_hls c img ! i ! j))) \<le> snd ts)
              then 1 else 0)"
proof -
  let ?X = "cv_Sobel c (cv_gray c img) 1 0" and ?Y = "cv_Sobel c (cv_gray c img) 0 1"
  let ?H = "cv_hls c img"
  have lx: "length ?X = length img" and ly: "length ?Y = length img"
    and lh: "length ?H = length img"
    using shx shy shh by (auto dest: same_shape_length)
  have rx: "length (?X ! i) = length (img ! i)" and ry: "length (?Y ! i) = length (img ! i)"
    and rh: "length (?H ! i) = length (img ! i)"
    using shx shy shh i by (auto dest: same_shape_row)
  from scaled_sobel_Inr[OF sx] obtain mx where
    sx_eq: "sx = map2d (\<lambda>v. np_uint8 (cast_nan c) (np_divide (255 * v) mx)) (map2d abs ?X)"
    by blast
  from scaled_sobel_Inr[OF sy] obtain my where
    sy_eq: "sy = map2d (\<lambda>v. np_uint8 (cast_nan c) (np_divide (255 * v) my)) (map2d abs ?Y)"
    by blast
  from scaled_magnitude_Inr[OF mg] obtain mm where
    mg_eq: "mg = map2d (\<lambda>v. np_uint8 (cast_nan c) (np_divide v (mm / 255)))
                  (zip2d (\<lambda>sx sy. sqrt (sx\<^sup>2 + sy\<^sup>2)) ?X ?Y)"
    by blast
  have lsx: "length sx = length img" "length (sx ! i) = length (img ! i)"
    using lx rx i by (simp_all add: sx_eq map2d_def)
  have lsy: "length sy = length img" "length (sy ! i) = length (img ! i)"
    using ly ry i by (simp_all add: sy_eq map2d_def)
  have lmg: "length mg = length img" "length (mg ! i) = length (img ! i)"
    using lx ly rx ry i by (simp_all add: mg_eq map2d_def zip2d_def)
  define out where "out = map (\<lambda>i. map (\<lambda>j.
      if (map2d (\<lambda>v. mask_incl ta (int v)) sx ! i ! j = 1 \<and>
          map2d (\<lambda>v. mask_incl ta (int v)) sy ! i ! j = 1 \<and>
          map2d (\<lambda>v. mask_incl tm (int v)) mg ! i ! j = 1 \<and>
          dir_thresh c img td ! i ! j = 1) \<or>
         (hue_thresh c img th ! i ! j = 1 \<and> saturation_thresh c img ts ! i ! j = 1)
      then 1 else 0::nat) [0..<length (map2d (\<lambda>v. mask_incl ta (int v)) sx ! i)])
    [0..<length (map2d (\<lambda>v. mask_incl ta (int v)) sx)]"
  have ct: "combined_thresh c img ta tm td th ts = Inr out"
    using sx sy mg
    by (simp add: combined_thresh_def abs_sobel_thresh_x abs_sobel_thresh_y mag_thresh_def
        Let_def out_def)
  have lo: "length out = length img"
    by (simp add: out_def map2d_def lsx)
  have lo2: "length (out ! i) = length (img ! i)"
    using i lsx by (simp add: out_def map2d_def)
  have dirv: "dir_thresh c img td ! i ! j = mask_incl td (np_arctan2 \<bar>?Y ! i ! j\<bar> \<bar>?X ! i ! j\<bar>)"
    using i j lx ly rx ry by (simp add: dir_thresh_def Let_def map2d_def zip2d_def)
  have hv: "hue_thresh c img th ! i ! j = mask_excl_incl th (int (fst (?H ! i ! j)))"
    using i j lh rh by (simp add: hue_thresh_def Let_def map2d_def split: prod.splits)
  have sv: "saturation_thresh c img ts ! i ! j = mask_excl_incl ts (int (snd (snd (?H ! i ! j))))"
    using i j lh rh by (simp add: saturation_thresh_def Let_def map2d_def split: prod.splits)
  have px: "out ! i ! j =
      (if (mask_incl ta (int (sx ! i ! j)) = 1 \<and> mask_incl ta (int (sy ! i ! j)) = 1 \<and>
           mask_incl tm (int (mg ! i ! j)) = 1 \<and>
           mask_incl td (np_arctan2 \<bar>?Y ! i ! j\<bar> \<bar>?X ! i ! j\<bar>) = 1) \<or>
          (mask_excl_incl th (int (fst (?H ! i ! j))) = 1 \<and>
           mask_excl_incl ts (int (snd (snd (?H ! i ! j)))) = 1)
       then 1 else 0)"
    using i j lsx lsy lmg by (simp add: out_def map2d_nth dirv hv sv map2d_def)
  show ?thesis
    using ct lo lo2 px unfolding mask_incl_eq_1 mask_excl_incl_eq_1 by (intro exI[of _ out]) simp
qed


lemma fold_max_zero: "\<forall>x\<in>set xs. x = (0::real) \<Longrightarrow> fold max xs 0 = 0"
  by (induction xs) auto

lemma np_max1_zeros: "xs \<noteq> [] \<Longrightarrow> \<forall>x\<in>set xs. x = 0 \<Longrightarrow> np_max1 xs = Inr 0"
  by (cases xs) (auto simp: np_max1_def fold_max_zero)


lemma np_max_zeros:
  assumes "i < length a" "j < length (a ! i)"
  shows "np_max (map2d (\<lambda>v. 0) a) = Inr 0"
proof -
  have "a ! i \<in> set a" using assms by simp
  moreover have "a ! i \<noteq> []" using assms by auto
  ultimately have "concat (map2d (\<lambda>v. 0::real) a) \<noteq> []"
    by (auto simp: map2d_def)
  moreover have "\<forall>x\<in>set (concat (map2d (\<lambda>v. 0::real) a)). x = 0"
    by (auto simp: map2d_def)
  ultimately show ?thesis unfolding np_max_def by (rule np_max1_zeros)
qed

lemma map2d_map2d: "map2d f (map2d g a) = map2d (\<lambda>v. f (g v)) a"
  by (simp add: map2d_def comp_def)

lemma zip2d_same: "zip2d f (map2d g a) (map2d h a) = map2d (\<lambda>v. f (g v) (h v)) a"
proof -
  have "\<And>r. map2 f (map g r) (map h r) = map (\<lambda>v. f (g v) (h v)) r"
    by (simp add: zip_map_map zip_same_conv_map comp_def case_prod_unfold)
  then show ?thesis
    by (simp add: zip2d_def map2d_def zip_map_map zip_same_conv_map comp_def case_prod_unfold)
qed

lemma array2_eqI:
  assumes "length a = length b"
      and "\<And>i. i < length b \<Longrightarrow> length (a ! i) = length (b ! i)"
      and "\<And>i j. i < length b \<Longrightarrow> j < length (b ! i) \<Longrightarrow> a ! i ! j = b ! i ! j"
  shows "a = b"
  using assms by (intro nth_equalityI) auto

lemma combined_thresh_default_plain:
  assumes bin: "list_all (list_all (\<lambda>v. v \<le> 1)) bw"
      and rect: "rect bw" and ne0: "0 < shape0 bw" "0 < shape1 bw"
  shows "combined_thresh_default cv_plain (map2d paint bw) = Inr bw"
proof -
  have rows: "length (bw ! i) = shape1 bw" if "i < length bw" for i
    using rect that by (simp add: rect_def list_all_length)
  have ne: "0 < length bw" "0 < length (bw ! 0)"
    using ne0 rows by (simp_all add: shape0_def)
  let ?img = "map2d paint bw"
  let ?g = "cv_gray cv_plain ?img"
  have sob: "cv_Sobel cv_plain ?g dx dy = map2d (\<lambda>v. 0) bw" for dx dy
    by (simp add: cv_plain_def map2d_map2d)
  have hls: "cv_hls cv_plain ?img = ?img" by (simp add: cv_plain_def)
  have cn: "cast_nan cv_plain = 0" by (simp add: cv_plain_def)
  have mx: "np_max (map2d (\<lambda>v. 0) bw) = Inr 0"
    using ne by (rule np_max_zeros)
  have sx: "scaled_sobel cv_plain (map2d abs (cv_Sobel cv_plain ?g dx dy)) = Inr (map2d (\<lambda>v. 0) bw)"
    for dx dy
    by (simp add: sob map2d_map2d scaled_sobel_def mx cn np_divide_def np_uint8_def)
  have mg: "scaled_magnitude cv_plain
              (zip2d (\<lambda>sx sy. sqrt (sx\<^sup>2 + sy\<^sup>2)) (cv_Sobel cv_plain ?g 1 0)
                 (cv_Sobel cv_plain ?g 0 1)) = Inr (map2d (\<lambda>v. 0) bw)"
    by (simp add: sob zip2d_same scaled_magnitude_def mx cn np_divide_def np_uint8_def
        map2d_map2d)
  have sh: "same_shape (map2d (\<lambda>v. 0::real) bw) ?img" "same_shape ?img ?img"
    by (simp_all add: same_shape_def map2d_def)
  have pix: "\<exists>out. combined_thresh_default cv_plain ?img = Inr out \<and>
               length out = length bw \<and> length (out ! i) = length (bw ! i) \<and>
               out ! i ! j = bw ! i ! j"
    if i: "i < length bw" and j: "j < length (bw ! i)" for i j
  proof -
    have i': "i < length ?img" and j': "j < length (?img ! i)"
      using i j by (simp_all add: map2d_def)
    have v: "bw ! i ! j \<le> 1"
      using bin i j by (auto simp: list_all_length)
    from combined_thresh_pixel[OF sx sx mg, of i j default_abs_thresh
        default_magnitude_thresh default_angle_thresh default_h_thresh default_s_thresh]
      sh hls sob i' j'
    obtain out where o: "combined_thresh_default cv_plain ?img = Inr out"
      "length out = length ?img" "length (out ! i) = length (?img ! i)"
      and p: "out ! i ! j =
        (if (fst default_abs_thresh \<le> int (map2d (\<lambda>v. 0) bw ! i ! j) \<and>
             int (map2d (\<lambda>v. 0) bw ! i ! j) \<le> snd default_abs_thresh \<and>
             fst default_abs_thresh \<le> int (map2d (\<lambda>v. 0) bw ! i ! j) \<and>
             int (map2d (\<lambda>v. 0) bw ! i ! j) \<le> snd default_abs_thresh \<and>
             fst default_magnitude_thresh \<le> int (map2d (\<lambda>v. 0) bw ! i ! j) \<and>
             int (map2d (\<lambda>v. 0) bw ! i ! j) \<le> snd default_magnitude_thresh \<and>
             fst default_angle_thresh \<le> np_arctan2 \<bar>map2d (\<lambda>v. 0) bw ! i ! j\<bar>
                                      \<bar>map2d (\<lambda>v. 0) bw ! i ! j\<bar> \<and>
             np_arctan2 \<bar>map2d (\<lambda>v. 0) bw ! i ! j\<bar>
                        \<bar>map2d (\<lambda>v. 0) bw ! i ! j\<bar> \<le> snd default_angle_thresh) \<or>
            (fst default_h_thresh < int (fst (?img ! i ! j)) \<and>
             int (fst (?img ! i ! j)) \<le> snd default_h_thresh \<and>
             fst default_s_thresh < int (snd (snd (?img ! i ! j))) \<and>
             int (snd (snd (?img ! i ! j))) \<le> snd default_s_thresh)
         then 1 else 0)"
      unfolding combined_thresh_default_def by auto
    have z: "map2d (\<lambda>v. 0::nat) bw ! i ! j = 0" using i j by (simp add: map2d_def)
    have pv: "?img ! i ! j = paint (bw ! i ! j)" using i j by (simp add: map2d_def)
    have "out ! i ! j = bw ! i ! j"
      using v unfolding p z pv
      by (auto simp: default_abs_thresh_def default_h_thresh_def default_s_thresh_def paint_def)
    with o i j show ?thesis by (auto simp: map2d_def)
  qed
  from pix[OF ne] obtain out where o: "combined_thresh_default cv_plain ?img = Inr out"
    by blast
  have "out = bw"
  proof (rule array2_eqI)
    show "length out = length bw" using pix[OF ne] o by auto
    show "length (out ! i) = length (bw ! i)" if "i < length bw" for i
    proof -
      have "0 < length (bw ! i)" using rows[OF that] ne0 by simp
      from pix[OF that this] o show ?thesis by auto
    qed
    show "out ! i ! j = bw ! i ! j" if "i < length bw" "j < length (bw ! i)" for i j
      using pix[OF that] o by auto
  qed
  with o show ?thesis by simp
qed

subsection \<open>Sliding-window search\<close>

lemma np_sum_axis0_length: "length (np_sum_axis0 w rows) = w"
  by (simp add: np_sum_axis0_def)

lemma sum_list_drop_nth:
  "sum_list (map f (drop n xs)) = (\<Sum>i = n..<length xs. f (xs ! i))"
proof -
  have "drop n xs = map ((!) xs) [n..<length xs]"
    by (metis drop_map drop_upt map_nth add_0)
  then have "sum_list (map f (drop n xs)) = sum_list (map (\<lambda>i. f (xs ! i)) [n..<length xs])"
    by (simp add: comp_def)
  also have "\<dots> = (\<Sum>i = n..<length xs. f (xs ! i))"
    by (simp add: interv_sum_list_conv_sum_set_nat)
  finally show ?thesis .
qed

lemma histogram_nth:
  "x < shape1 bw \<Longrightarrow>
   histogram bw ! x = (\<Sum>y = shape0 bw div 2..<shape0 bw. bw ! y ! x)"
  by (simp add: histogram_def np_sum_axis0_def shape0_def sum_list_drop_nth)

lemma histogram_length: "length (histogram bw) = shape1 bw"
  by (simp add: histogram_def np_sum_axis0_length)

lemma midpoint_eq: "midpoint bw = shape1 bw div 2"
  by (simp add: midpoint_def histogram_length)

lemma argmax_aux_first_max:
  "length pre = i \<Longrightarrow> best < i \<Longrightarrow> pre ! best = bv \<Longrightarrow>
   (\<forall>j<i. pre ! j \<le> bv) \<Longrightarrow> (\<forall>j<best. pre ! j < bv) \<Longrightarrow>
   argmax_aux best bv i vs < length (pre @ vs) \<and>
   (\<forall>j<length (pre @ vs). (pre @ vs) ! j \<le> (pre @ vs) ! argmax_aux best bv i vs) \<and>
   (\<forall>j<argmax_aux best bv i vs. (pre @ vs) ! j < (pre @ vs) ! argmax_aux best bv i vs)"
proof (induction vs arbitrary: pre i best bv)
  case Nil
  then show ?case by auto
next
  case (Cons v vs)
  let ?pre = "pre @ [v]"
  have app: "pre @ v # vs = ?pre @ vs" by simp
  show ?case
  proof (cases "bv < v")
    case True
    have "argmax_aux i v (Suc i) vs < length (?pre @ vs) \<and>
      (\<forall>j<length (?pre @ vs). (?pre @ vs) ! j \<le> (?pre @ vs) ! argmax_aux i v (Suc i) vs) \<and>
      (\<forall>j<argmax_aux i v (Suc i) vs. (?pre @ vs) ! j < (?pre @ vs) ! argmax_aux i v (Suc i) vs)"
    proof (rule Cons.IH)
      show "length ?pre = Suc i" using Cons.prems by simp
      show "i < Suc i" by simp
      show "?pre ! i = v" using Cons.prems by (simp add: nth_append)
      show "\<forall>j<Suc i. ?pre ! j \<le> v"
        using Cons.prems True by (auto simp: nth_append less_Suc_eq intro: order_trans less_imp_le)
      show "\<forall>j<i. ?pre ! j < v"
        using Cons.prems True by (auto simp: nth_append intro: le_less_trans)
    qed
    with True show ?thesis unfolding app by simp
  next
    case False
    have "argmax_aux best bv (Suc i) vs < length (?pre @ vs) \<and>
      (\<forall>j<length (?pre @ vs). (?pre @ vs) ! j \<le> (?pre @ vs) ! argmax_aux best bv (Suc i) vs) \<and>
      (\<forall>j<argmax_aux best bv (Suc i) vs. (?pre @ vs) ! j < (?pre @ vs) ! argmax_aux best bv (Suc i) vs)"
    proof (rule Cons.IH)
      show "length ?pre = Suc i" using Cons.prems by simp
      show "best < Suc i" using Cons.prems by simp
      show "?pre ! best = bv" using Cons.prems by (simp add: nth_append)
      show "\<forall>j<Suc i. ?pre ! j \<le> bv"
        using Cons.prems False by (auto simp: nth_append less_Suc_eq)
      show "\<forall>j<best. ?pre ! j < bv"
        using Cons.prems by (auto simp: nth_append)
    qed
    with False show ?thesis unfolding app by simp
  qed
qed

lemma np_argmax_first_max:
  assumes "np_argmax xs = Inr r"
  shows "r < length xs \<and> (\<forall>j<length xs. xs ! j \<le> xs ! r) \<and> (\<forall>j<r. xs ! j < xs ! r)"
proof (cases xs)
  case Nil
  with assms show ?thesis by (simp add: np_argmax_def)
next
  case (Cons v vs)
  with assms have r: "r = argmax_aux 0 v 1 vs" by (simp add: np_argmax_def)
  have "argmax_aux 0 v 1 vs < length ([v] @ vs) \<and>
   (\<forall>j<length ([v] @ vs). ([v] @ vs) ! j \<le> ([v] @ vs) ! argmax_aux 0 v 1 vs) \<and>
   (\<forall>j<argmax_aux 0 v 1 vs. ([v] @ vs) ! j < ([v] @ vs) ! argmax_aux 0 v 1 vs)"
    by (rule argmax_aux_first_max) auto
  with r Cons show ?thesis by simp
qed

lemma leftx_base_first_max:
  assumes "leftx_base bw = Inr lb"
  shows "lb < shape1 bw div 2 \<and>
         (\<forall>j<shape1 bw div 2. histogram bw ! j \<le> histogram bw ! lb) \<and>
         (\<forall>j<lb. histogram bw ! j < histogram bw ! lb)"
proof -
  let ?m = "shape1 bw div 2"
  from assms have a: "np_argmax (take ?m (histogram bw)) = Inr lb"
    by (simp add: leftx_base_def midpoint_eq)
  have len: "length (take ?m (histogram bw)) = ?m"
    by (simp add: histogram_length)
  from np_argmax_first_max[OF a]
  have A: "lb < length (take ?m (histogram bw))"
    and mx: "\<forall>j<length (take ?m (histogram bw)).
               take ?m (histogram bw) ! j \<le> take ?m (histogram bw) ! lb"
    and fst: "\<forall>j<lb. take ?m (histogram bw) ! j < take ?m (histogram bw) ! lb"
    by blast+
  have lb: "lb < ?m" using A len by simp
  have 2: "histogram bw ! j \<le> histogram bw ! lb" if "j < ?m" for j
  proof -
    have "take ?m (histogram bw) ! j \<le> take ?m (histogram bw) ! lb"
      using mx that len by simp
    then show ?thesis using that lb by (simp only: nth_take)
  qed
  have 3: "histogram bw ! j < histogram bw ! lb" if "j < lb" for j
  proof -
    have "take ?m (histogram bw) ! j < take ?m (histogram bw) ! lb"
      using fst that by blast
    moreover have "j < ?m" using that lb by simp
    ultimately show ?thesis using lb by (simp only: nth_take)
  qed
  show ?thesis using lb 2 3 by blast
qed

lemma rightx_base_first_max:
  assumes "rightx_base bw = Inr rb"
  shows "shape1 bw div 2 \<le> rb \<and> rb < shape1 bw \<and>
         (\<forall>j. shape1 bw div 2 \<le> j \<and> j < shape1 bw \<longrightarrow> histogram bw ! j \<le> histogram bw ! rb) \<and>
         (\<forall>j. shape1 bw div 2 \<le> j \<and> j < rb \<longrightarrow> histogram bw ! j < histogram bw ! rb)"
proof -
  let ?m = "shape1 bw div 2"
  let ?d = "drop ?m (histogram bw)"
  from assms obtain r where a: "np_argmax ?d = Inr r" and rb: "rb = r + ?m"
    by (auto simp: rightx_base_def midpoint_eq split: sum.splits)
  have len: "length ?d = shape1 bw - ?m"
    by (simp add: histogram_length)
  from np_argmax_first_max[OF a] len
  have r: "r < shape1 bw - ?m"
    and mx: "\<forall>j<shape1 bw - ?m. ?d ! j \<le> ?d ! r"
    and fst: "\<forall>j<r. ?d ! j < ?d ! r"
    by simp_all
  have nth: "?d ! j = histogram bw ! (?m + j)" if "j < shape1 bw - ?m" for j
    using that by (simp add: histogram_length)
  have 1: "?m \<le> rb" "rb < shape1 bw" using r rb by simp_all
  have 2: "histogram bw ! j \<le> histogram bw ! rb" if "?m \<le> j" "j < shape1 bw" for j
  proof -
    have "j - ?m < shape1 bw - ?m" using that by simp
    with mx have "?d ! (j - ?m) \<le> ?d ! r" by blast
    then show ?thesis using that r by (simp add: nth rb add.commute)
  qed
  have 3: "histogram bw ! j < histogram bw ! rb" if "?m \<le> j" "j < rb" for j
  proof -
    have "j - ?m < r" using that rb by simp
    with fst have "?d ! (j - ?m) < ?d ! r" by blast
    moreover have "j - ?m < shape1 bw - ?m" using that 1 by simp
    ultimately show ?thesis using that r by (simp add: nth rb add.commute)
  qed
  show ?thesis using 1 2 3 by blast
qed

lemma map_nth_filter:
  "map ((!) xs) (filter (\<lambda>i. P (xs ! i)) [0..<length xs]) = filter P xs"
proof -
  have "filter P (map ((!) xs) [0..<length xs]) =
        map ((!) xs) (filter (P \<circ> (!) xs) [0..<length xs])"
    by (rule filter_map)
  then show ?thesis by (simp add: map_nth comp_def)
qed

text \<open>The indices selected by one window, for the nonzero pixels \<open>nz\<close>.\<close>

lemma good_inds_in_window:
  "good_inds (map fst nz) (map snd nz) (win_y_low bw k) (win_y_high bw k) (c - margin) (c + margin) =
     filter (\<lambda>i. in_window bw k c (nz ! i)) [0..<length nz]"
  unfolding good_inds_def
  by (rule filter_cong) (auto simp: in_window_def split: prod.splits)

lemma good_inds_pixels:
  "map ((!) nz) (filter (\<lambda>i. in_window bw k c (nz ! i)) [0..<length nz]) =
     filter (in_window bw k c) nz"
  by (rule map_nth_filter)

lemma good_inds_xs:
  "map ((!) (map snd nz)) (filter (\<lambda>i. in_window bw k c (nz ! i)) [0..<length nz]) =
     map snd (filter (in_window bw k c) nz)"
proof -
  have "map ((!) (map snd nz)) (filter (\<lambda>i. in_window bw k c (nz ! i)) [0..<length nz]) =
        map snd (map ((!) nz) (filter (\<lambda>i. in_window bw k c (nz ! i)) [0..<length nz]))"
    by simp
  then show ?thesis by (simp only: good_inds_pixels)
qed

lemma good_inds_ys:
  "map ((!) (map fst nz)) (filter (\<lambda>i. in_window bw k c (nz ! i)) [0..<length nz]) =
     map fst (filter (in_window bw k c) nz)"
proof -
  have "map ((!) (map fst nz)) (filter (\<lambda>i. in_window bw k c (nz ! i)) [0..<length nz]) =
        map fst (map ((!) nz) (filter (\<lambda>i. in_window bw k c (nz ! i)) [0..<length nz]))"
    by simp
  then show ?thesis by (simp only: good_inds_pixels)
qed

lemma good_inds_count:
  "length (filter (\<lambda>i. in_window bw k c (nz ! i)) [0..<length nz]) =
     length (filter (in_window bw k c) nz)"
  by (metis good_inds_pixels length_map)

lemma window_step_eq:
  "window_step (int (shape0 bw)) (int (window_height bw)) (map fst nz) (map snd nz) s k =
     \<lparr> leftx_current =
         (if minpix < length (filter (in_window bw k (leftx_current s)) nz)
          then np_int_mean (map snd (filter (in_window bw k (leftx_current s)) nz))
          else leftx_current s),
       rightx_current =
         (if minpix < length (filter (in_window bw k (rightx_current s)) nz)
          then np_int_mean (map snd (filter (in_window bw k (rightx_current s)) nz))
          else rightx_current s),
       left_lane_inds = left_lane_inds s @
         [filter (\<lambda>i. in_window bw k (leftx_current s) (nz ! i)) [0..<length nz]],
       right_lane_inds = right_lane_inds s @
         [filter (\<lambda>i. in_window bw k (rightx_current s) (nz ! i)) [0..<length nz]] \<rparr>"
proof -
  have yl: "int (shape0 bw) - (int k + 1) * int (window_height bw) = win_y_low bw k"
    and yh: "int (shape0 bw) - int k * int (window_height bw) = win_y_high bw k"
    by (simp_all add: win_y_low_def win_y_high_def)
  show ?thesis
    unfolding window_step_def Let_def yl yh good_inds_in_window good_inds_xs good_inds_count
    by simp
qed

lemma windows_upto_Suc:
  "windows_upto bw lb rb (Suc k) =
     window_step (int (shape0 bw)) (int (window_height bw))
       (map fst (np_nonzero bw)) (map snd (np_nonzero bw)) (windows_upto bw lb rb k) k"
  by (simp add: windows_upto_def Let_def)

lemma windows_upto_0:
  "windows_upto bw lb rb 0 =
     \<lparr> leftx_current = int lb, rightx_current = int rb,
       left_lane_inds = [], right_lane_inds = [] \<rparr>"
  by (simp add: windows_upto_def Let_def)

lemma left_lane_inds_upto:
  "left_lane_inds (windows_upto bw lb rb k) =
     map (\<lambda>j. filter (\<lambda>i. in_window bw j (leftx_current (windows_upto bw lb rb j))
                          (np_nonzero bw ! i)) [0..<length (np_nonzero bw)]) [0..<k]"
proof (induction k)
  case 0
  show ?case by (simp add: windows_upto_0)
next
  case (Suc k)
  show ?case
    unfolding windows_upto_Suc window_step_eq using Suc.IH by simp
qed

lemma right_lane_inds_upto:
  "right_lane_inds (windows_upto bw lb rb k) =
     map (\<lambda>j. filter (\<lambda>i. in_window bw j (rightx_current (windows_upto bw lb rb j))
                          (np_nonzero bw ! i)) [0..<length (np_nonzero bw)]) [0..<k]"
proof (induction k)
  case 0
  show ?case by (simp add: windows_upto_0)
next
  case (Suc k)
  show ?case
    unfolding windows_upto_Suc window_step_eq using Suc.IH by simp
qed

lemma np_nonzero_set:
  assumes "rect a"
  shows "set (np_nonzero a) =
           {(int y, int x) | y x. y < shape0 a \<and> x < shape1 a \<and> a ! y ! x \<noteq> 0}"
proof -
  have rows: "length (a ! y) = shape1 a" if "y < length a" for y
    using assms that by (simp add: rect_def list_all_length)
  show ?thesis
    unfolding np_nonzero_def shape0_def
    using rows by auto
qed

lemma np_nonzero_nonneg: "p \<in> set (np_nonzero a) \<Longrightarrow> 0 \<le> snd p"
  by (auto simp: np_nonzero_def)

lemma np_int_mean_floor:
  assumes "\<forall>x\<in>set xs. 0 \<le> x"
  shows "np_int_mean xs = \<lfloor>mean_of xs\<rfloor>"
proof -
  have "0 \<le> sum_list xs" using assms by (simp add: sum_list_nonneg)
  then have "np_int_mean xs = sum_list xs div int (length xs)"
    by (simp add: np_int_mean_def Let_def)
  also have "\<dots> = \<lfloor>real_of_int (sum_list xs) / real_of_int (int (length xs))\<rfloor>"
    by (simp only: floor_divide_of_int_eq)
  finally show ?thesis by (simp add: mean_of_def)
qed

lemma recentre_floor:
  "np_int_mean (map snd (filter P (np_nonzero a))) =
     \<lfloor>mean_of (map snd (filter P (np_nonzero a)))\<rfloor>"
  by (rule np_int_mean_floor) (auto dest: np_nonzero_nonneg)

lemma window_rows:
  "win_y_high bw 0 = int (shape0 bw)"
  "win_y_low bw k = win_y_high bw (Suc k)"
  "win_y_high bw k - win_y_low bw k = int (shape0 bw div 9)"
  "win_y_low bw 8 = int (shape0 bw mod 9)"
proof -
  show "win_y_high bw 0 = int (shape0 bw)" by (simp add: win_y_high_def)
  show "win_y_low bw k = win_y_high bw (Suc k)"
    by (simp add: win_y_low_def win_y_high_def algebra_simps)
  show "win_y_high bw k - win_y_low bw k = int (shape0 bw div 9)"
    by (simp add: win_y_low_def win_y_high_def window_height_def nwindows_def algebra_simps)
  have "shape0 bw = 9 * (shape0 bw div 9) + shape0 bw mod 9" by simp
  then have "int (shape0 bw) = 9 * int (shape0 bw div 9) + int (shape0 bw mod 9)"
    by (metis of_nat_add of_nat_mult of_nat_numeral)
  then show "win_y_low bw 8 = int (shape0 bw mod 9)"
    by (simp add: win_y_low_def window_height_def nwindows_def)
qed

lemma find_lane_pixels_eq:
  assumes "leftx_base bw = Inr lb" "rightx_base bw = Inr rb"
  shows "find_lane_pixels bw =
     Inr (map snd (concat (map (\<lambda>k. filter (in_window bw k (leftx_current (windows_upto bw lb rb k)))
                                   (np_nonzero bw)) [0..<9])),
          map fst (concat (map (\<lambda>k. filter (in_window bw k (leftx_current (windows_upto bw lb rb k)))
                                   (np_nonzero bw)) [0..<9])),
          map snd (concat (map (\<lambda>k. filter (in_window bw k (rightx_current (windows_upto bw lb rb k)))
                                   (np_nonzero bw)) [0..<9])),
          map fst (concat (map (\<lambda>k. filter (in_window bw k (rightx_current (windows_upto bw lb rb k)))
                                   (np_nonzero bw)) [0..<9])))"
proof -
  let ?nz = "np_nonzero bw"
  have x: "map ((!) (map snd ?nz)) (concat (map (\<lambda>j. filter (\<lambda>i. in_window bw j (c j) (?nz ! i))
                [0..<length ?nz]) [0..<n])) =
           map snd (concat (map (\<lambda>k. filter (in_window bw k (c k)) ?nz) [0..<n]))" for c n
    by (simp add: map_concat comp_def good_inds_xs)
  have y: "map ((!) (map fst ?nz)) (concat (map (\<lambda>j. filter (\<lambda>i. in_window bw j (c j) (?nz ! i))
                [0..<length ?nz]) [0..<n])) =
           map fst (concat (map (\<lambda>k. filter (in_window bw k (c k)) ?nz) [0..<n]))" for c n
    by (simp add: map_concat comp_def good_inds_ys)
  show ?thesis
    unfolding find_lane_pixels_def Let_def assms nwindows_def
      left_lane_inds_upto right_lane_inds_upto
    by (simp only: sum.case x y)
qed

lemma bw_D_bases: "leftx_base bw_D = Inr 0" "rightx_base bw_D = Inr 26"
  by code_simp+

lemma bw_D_rect: "rect bw_D"
  by code_simp

lemma bw_D_window0:
  "length (filter (in_window bw_D 0 0) (np_nonzero bw_D)) = 52"
  "mean_of (map snd (filter (in_window bw_D 0 0) (np_nonzero bw_D))) = 51 / 2"
  by code_simp+

lemma bw_D_centre: "leftx_current (windows_upto bw_D 0 26 1) = 25"
  by code_simp

lemma bw_D_top: "shape0 bw_D = 10" "win_y_low bw_D 8 = 1" "bw_D ! 0 ! 0 = 1"
  by code_simp+

lemma np_argmax_returns: "xs \<noteq> [] \<Longrightarrow> \<exists>r. np_argmax xs = Inr r"
  by (cases xs) (auto simp: np_argmax_def)

lemma bases_exist:
  assumes "2 \<le> shape1 bw"
  shows "\<exists>lb rb. leftx_base bw = Inr lb \<and> rightx_base bw = Inr rb"
proof -
  have "length (take (shape1 bw div 2) (histogram bw)) \<noteq> 0"
    using assms unfolding length_take histogram_length by linarith
  then have "take (shape1 bw div 2) (histogram bw) \<noteq> []"
    by (simp only: length_0_conv not_False_eq_True)
  from np_argmax_returns[OF this] obtain lb where "leftx_base bw = Inr lb"
    by (auto simp: leftx_base_def midpoint_eq)
  moreover have "length (drop (shape1 bw div 2) (histogram bw)) \<noteq> 0"
    using assms unfolding length_drop histogram_length by linarith
  then have "drop (shape1 bw div 2) (histogram bw) \<noteq> []" by (simp only: length_0_conv not_False_eq_True)
  from np_argmax_returns[OF this] obtain r where
    "np_argmax (drop (shape1 bw div 2) (histogram bw)) = Inr r" by blast
  then have "rightx_base bw = Inr (r + shape1 bw div 2)"
    by (simp add: rightx_base_def midpoint_eq)
  ultimately show ?thesis by blast
qed

lemma bw_D_width: "2 \<le> shape1 bw_D"
  by code_simp

text \<open>
  C4 (as the code behaves). For a rectangular binary frame of height H and width W, W at
  least 2, both base columns exist. The histogram has one entry per column, the sum of the
  column over the rows H div 2, ..., H - 1; the left base is the first maximum of the
  histogram among the columns below W div 2, the right base the first maximum among the
  columns from W div 2 on. There are nine windows of equal height H div 9, stacked
  upwards from the bottom row; the topmost one starts at row H mod 9, so the windows
  cover the whole height only when 9 divides H. Window k takes all nonzero pixels of its
  rows whose column x satisfies c - 100 <= x < c + 100 for the current centre c. The next
  centre is the mean column of these pixels truncated to an integer when more than 50 of
  them were taken, and c otherwise. The result lists the pixels of the nine windows,
  bottom window first.
\<close>

theorem sliding_window_search:
  assumes "rect bw" and "2 \<le> shape1 bw"
  shows "\<exists>lb rb.
         leftx_base bw = Inr lb \<and> rightx_base bw = Inr rb \<and>
         length (histogram bw) = shape1 bw \<and>
         (\<forall>x<shape1 bw. histogram bw ! x = (\<Sum>y = shape0 bw div 2..<shape0 bw. bw ! y ! x)) \<and>
         lb < shape1 bw div 2 \<and>
         (\<forall>j<shape1 bw div 2. histogram bw ! j \<le> histogram bw ! lb) \<and>
         (\<forall>j<lb. histogram bw ! j < histogram bw ! lb) \<and>
         shape1 bw div 2 \<le> rb \<and> rb < shape1 bw \<and>
         (\<forall>j. shape1 bw div 2 \<le> j \<and> j < shape1 bw \<longrightarrow> histogram bw ! j \<le> histogram bw ! rb) \<and>
         (\<forall>j. shape1 bw div 2 \<le> j \<and> j < rb \<longrightarrow> histogram bw ! j < histogram bw ! rb) \<and>
         win_y_high bw 0 = int (shape0 bw) \<and>
         (\<forall>k. win_y_low bw k = win_y_high bw (Suc k) \<and>
              win_y_high bw k - win_y_low bw k = int (shape0 bw div 9)) \<and>
         win_y_low bw 8 = int (shape0 bw mod 9) \<and>
         set (np_nonzero bw) =
           {(int y, int x) | y x. y < shape0 bw \<and> x < shape1 bw \<and> bw ! y ! x \<noteq> 0} \<and>
         (\<forall>k<9.
            leftx_current (windows_upto bw lb rb (Suc k)) =
              (if 50 < length (filter (in_window bw k (leftx_current (windows_upto bw lb rb k)))
                                 (np_nonzero bw))
               then \<lfloor>mean_of (map snd (filter (in_window bw k
                                   (leftx_current (windows_upto bw lb rb k))) (np_nonzero bw)))\<rfloor>
               else leftx_current (windows_upto bw lb rb k)) \<and>
            rightx_current (windows_upto bw lb rb (Suc k)) =
              (if 50 < length (filter (in_window bw k (rightx_current (windows_upto bw lb rb k)))
                                 (np_nonzero bw))
               then \<lfloor>mean_of (map snd (filter (in_window bw k
                                   (rightx_current (windows_upto bw lb rb k))) (np_nonzero bw)))\<rfloor>
               else rightx_current (windows_upto bw lb rb k))) \<and>
         leftx_current (windows_upto bw lb rb 0) = int lb \<and>
         rightx_current (windows_upto bw lb rb 0) = int rb \<and>
         find_lane_pixels bw =
           Inr (map snd (concat (map (\<lambda>k. filter (in_window bw k
                            (leftx_current (windows_upto bw lb rb k))) (np_nonzero bw)) [0..<9])),
                map fst (concat (map (\<lambda>k. filter (in_window bw k
                            (leftx_current (windows_upto bw lb rb k))) (np_nonzero bw)) [0..<9])),
                map snd (concat (map (\<lambda>k. filter (in_window bw k
                            (rightx_current (windows_upto bw lb rb k))) (np_nonzero bw)) [0..<9])),
                map fst (concat (map (\<lambda>k. filter (in_window bw k
                            (rightx_current (windows_upto bw lb rb k))) (np_nonzero bw)) [0..<9])))"
proof -
  from bases_exist[OF assms(2)] obtain lb rb where
    bases: "leftx_base bw = Inr lb" "rightx_base bw = Inr rb" by blast
  have hist: "\<forall>x<shape1 bw. histogram bw ! x = (\<Sum>y = shape0 bw div 2..<shape0 bw. bw ! y ! x)"
    by (simp add: histogram_nth)
  have rows: "\<forall>k. win_y_low bw k = win_y_high bw (Suc k) \<and>
                  win_y_high bw k - win_y_low bw k = int (shape0 bw div 9)"
    using window_rows(2,3) by blast
  have step: "\<forall>k<9.
      leftx_current (windows_upto bw lb rb (Suc k)) =
        (if 50 < length (filter (in_window bw k (leftx_current (windows_upto bw lb rb k)))
                           (np_nonzero bw))
         then \<lfloor>mean_of (map snd (filter (in_window bw k
                             (leftx_current (windows_upto bw lb rb k))) (np_nonzero bw)))\<rfloor>
         else leftx_current (windows_upto bw lb rb k)) \<and>
      rightx_current (windows_upto bw lb rb (Suc k)) =
        (if 50 < length (filter (in_window bw k (rightx_current (windows_upto bw lb rb k)))
                           (np_nonzero bw))
         then \<lfloor>mean_of (map snd (filter (in_window bw k
                             (rightx_current (windows_upto bw lb rb k))) (np_nonzero bw)))\<rfloor>
         else rightx_current (windows_upto bw lb rb k))"
    unfolding windows_upto_Suc window_step_eq
    by (simp add: minpix_def recentre_floor)
  have start: "leftx_current (windows_upto bw lb rb 0) = int lb"
    "rightx_current (windows_upto bw lb rb 0) = int rb"
    by (simp_all add: windows_upto_0)
  show ?thesis
    apply (rule exI[of _ lb])
    apply (rule exI[of _ rb])
    using bases histogram_length[of bw] hist leftx_base_first_max[OF bases(1)]
      rightx_base_first_max[OF bases(2)] window_rows(1)[of bw] rows window_rows(4)[of bw]
      np_nonzero_set[OF assms(1)] step start find_lane_pixels_eq[OF bases]
    by (intro conjI) blast+
qed

theorem sliding_window_search_witness:
  "rect bw_D \<and> 2 \<le> shape1 bw_D \<and> leftx_base bw_D = Inr 0 \<and> rightx_base bw_D = Inr 26 \<and>
   leftx_current (windows_upto bw_D 0 26 1) =
     \<lfloor>mean_of (map snd (filter (in_window bw_D 0 0) (np_nonzero bw_D)))\<rfloor> \<and>
   win_y_low bw_D 8 = int (shape0 bw_D mod 9)"
  using sliding_window_search[OF bw_D_rect bw_D_width]
proof (elim exE conjE)
  fix lb rb
  assume b: "leftx_base bw_D = Inr lb" "rightx_base bw_D = Inr rb"
    and step: "\<forall>k<9.
      leftx_current (windows_upto bw_D lb rb (Suc k)) =
        (if 50 < length (filter (in_window bw_D k (leftx_current (windows_upto bw_D lb rb k)))
                           (np_nonzero bw_D))
         then \<lfloor>mean_of (map snd (filter (in_window bw_D k
                             (leftx_current (windows_upto bw_D lb rb k))) (np_nonzero bw_D)))\<rfloor>
         else leftx_current (windows_upto bw_D lb rb k)) \<and>
      rightx_current (windows_upto bw_D lb rb (Suc k)) =
        (if 50 < length (filter (in_window bw_D k (rightx_current (windows_upto bw_D lb rb k)))
                           (np_nonzero bw_D))
         then \<lfloor>mean_of (map snd (filter (in_window bw_D k
                             (rightx_current (windows_upto bw_D lb rb k))) (np_nonzero bw_D)))\<rfloor>
         else rightx_current (windows_upto bw_D lb rb k))"
    and start: "leftx_current (windows_upto bw_D lb rb 0) = int lb"
    and top: "win_y_low bw_D 8 = int (shape0 bw_D mod 9)"
  have lb: "lb = 0" and rb: "rb = 26" using b bw_D_bases by simp_all
  from step have "leftx_current (windows_upto bw_D lb rb (Suc 0)) =
        (if 50 < length (filter (in_window bw_D 0 (leftx_current (windows_upto bw_D lb rb 0)))
                           (np_nonzero bw_D))
         then \<lfloor>mean_of (map snd (filter (in_window bw_D 0
                             (leftx_current (windows_upto bw_D lb rb 0))) (np_nonzero bw_D)))\<rfloor>
         else leftx_current (windows_upto bw_D lb rb 0))"
    by simp
  then have "leftx_current (windows_upto bw_D 0 26 1) =
     \<lfloor>mean_of (map snd (filter (in_window bw_D 0 0) (np_nonzero bw_D)))\<rfloor>"
    using start by (simp add: bw_D_window0(1) lb rb)
  with top show ?thesis by (simp add: bw_D_rect bw_D_bases bw_D_width)
qed

text \<open>
  C4 does not hold as stated. Frame D has 10 rows and 52 columns; its bottom row is lit
  and so is the pixel in row 0, column 0. The bottom window collects the 52 pixels of the
  bottom row, whose mean column is 25.5, and the next window is centred at column 25,
  not at the mean. The nine windows have height 1 and the topmost one starts at row 1:
  they do not partition the ten rows, and the lit pixel of row 0 lies in no window.
\<close>

theorem sliding_window_counterexample:
  "leftx_base bw_D = Inr 0 \<and> rightx_base bw_D = Inr 26 \<and>
   length (filter (in_window bw_D 0 0) (np_nonzero bw_D)) = 52 \<and>
   mean_of (map snd (filter (in_window bw_D 0 0) (np_nonzero bw_D))) = 51 / 2 \<and>
   leftx_current (windows_upto bw_D 0 26 1) = 25 \<and>
   shape0 bw_D = 10 \<and> win_y_low bw_D 8 = 1 \<and> bw_D ! 0 ! 0 = 1"
  using bw_D_bases bw_D_window0 bw_D_centre bw_D_top by simp

subsection \<open>The fitting step\<close>







lemma around_poly_bw_B: "around_poly fit_A (np_nonzero bw_B) = []"
  by code_simp




subsection \<open>The pipeline and the tracker state\<close>

lemma perspective_transform_plain:
  "perspective_transform cv_plain a = (a, identity3, identity3)"
  by (simp add: perspective_transform_def cv_plain_def Let_def)

lemma warp_frame_plain:
  assumes "list_all (list_all (\<lambda>v. v \<le> 1)) bw" "rect bw" "0 < shape0 bw" "0 < shape1 bw"
  shows "warp_frame cv_plain (map2d paint bw) = Inr (bw, identity3)"
proof -
  have u: "cv_undistort cv_plain (map2d paint bw) = map2d paint bw"
    by (simp add: cv_plain_def)
  show ?thesis
    by (simp add: warp_frame_def u combined_thresh_default_plain[OF assms]
        perspective_transform_plain)
qed

lemma pipeline_raise_fit:
  assumes "warp_frame c img = Inr (bw, Minv)" "fit_lanes pf st bw = Inl e"
  shows "pipeline c pf st img = (Inl e, st)"
  using assms by (simp add: pipeline_def)

lemma pipeline_return:
  assumes "warp_frame c img = Inr (bw, Minv)" "fit_lanes pf st bw = Inr (lf, rf)"
      and "curvature_in_meters pf bw lf rf = Inr (lc, rc, d)"
  shows "pipeline c pf st img =
           (Inr (print_data_on_image c (draw_lines_on_image c img bw lf rf Minv) lc rc d),
            st \<lparr> left_line := (left_line st) \<lparr> previous_fit := Some lf, found := True \<rparr>,
                 right_line := (right_line st) \<lparr> previous_fit := Some rf, found := True \<rparr> \<rparr>)"
  using assms by (simp add: pipeline_def Let_def)

lemma pipeline_Inr_D:
  assumes "pipeline c pf st img = (Inr out, st')"
  shows "\<exists>bw Minv lf rf. warp_frame c img = Inr (bw, Minv) \<and>
           fit_lanes pf st bw = Inr (lf, rf) \<and>
           st' = st \<lparr> left_line := (left_line st) \<lparr> previous_fit := Some lf, found := True \<rparr>,
                      right_line := (right_line st) \<lparr> previous_fit := Some rf, found := True \<rparr> \<rparr>"
  using assms by (auto simp: pipeline_def Let_def split: sum.splits prod.splits)

lemma pipeline_Inl_state:
  assumes "fst (pipeline c pf st img) = Inl e"
  shows "snd (pipeline c pf st img) = st"
  using assms by (auto simp: pipeline_def Let_def split: sum.splits prod.splits)

lemma pipeline_found_left:
  "found (left_line st) \<Longrightarrow> found (left_line (snd (pipeline c pf st img)))"
  by (auto simp: pipeline_def Let_def split: sum.splits prod.splits)

lemma pipeline_found_right:
  "found (right_line st) \<Longrightarrow> found (right_line (snd (pipeline c pf st img)))"
  by (auto simp: pipeline_def Let_def split: sum.splits prod.splits)

lemma pipeline_both_found:
  "both_found st \<Longrightarrow> both_found (snd (pipeline c pf st img))"
  by (simp add: both_found_def pipeline_found_left pipeline_found_right)

lemma run_frames_both_found:
  "both_found st \<Longrightarrow> both_found (snd (run_frames c pf st imgs))"
proof (induction imgs arbitrary: st)
  case Nil
  then show ?case by simp
next
  case (Cons img imgs)
  have "both_found (snd (pipeline c pf st img))"
    using Cons.prems by (rule pipeline_both_found)
  then have "both_found (snd (run_frames c pf (snd (pipeline c pf st img)) imgs))"
    by (rule Cons.IH)
  then show ?case by (auto split: prod.splits)
qed

lemma fit_lanes_found:
  "both_found st \<Longrightarrow>
   fit_lanes pf st bw =
     search_around_poly pf bw (previous_fit (left_line st)) (previous_fit (right_line st))"
  by (simp add: fit_lanes_def both_found_def)

lemma fit_lanes_not_found:
  "\<not> both_found st \<Longrightarrow> fit_lanes pf st bw = fit_polynomial pf bw"
  by (auto simp: fit_lanes_def both_found_def)

lemma np_linspace0_nonempty: "0 < n \<Longrightarrow> np_linspace0 n \<noteq> []"
  by (simp add: np_linspace0_def)

lemma np_polyfit_samples:
  "0 < h \<Longrightarrow>
   metric_fit (np_polyfit lstsq) h f =
     Inr (lstsq (fst (metric_samples h f)) (snd (metric_samples h f)))"
  by (simp add: metric_fit_def np_polyfit_def metric_samples_def Let_def np_linspace0_def)

lemma np_max1_Inr: "xs \<noteq> [] \<Longrightarrow> \<exists>m. np_max1 xs = Inr m"
  by (cases xs) (auto simp: np_max1_def)

lemma curvature_in_meters_np_returns:
  assumes "0 < shape0 bw"
  shows "\<exists>lc rc d. curvature_in_meters (np_polyfit lstsq) bw lf rf = Inr (lc, rc, d)"
proof -
  from np_max1_Inr[OF np_linspace0_nonempty[OF assms]] obtain m where
    "np_max1 (np_linspace0 (shape0 bw)) = Inr m" by blast
  then show ?thesis
    by (simp add: curvature_in_meters_def Let_def np_polyfit_samples[OF assms])
qed

lemma bw_A_facts:
  "list_all (list_all (\<lambda>v. v \<le> 1)) bw_A" "rect bw_A" "0 < shape0 bw_A" "0 < shape1 bw_A"
  by code_simp+

lemma bw_B_facts:
  "list_all (list_all (\<lambda>v. v \<le> 1)) bw_B" "rect bw_B" "0 < shape0 bw_B" "0 < shape1 bw_B"
  by code_simp+

lemma fit_polynomial_bw_A:
  "fit_polynomial (np_polyfit lstsq_cramer) bw_A = Inr (fit_A, fit_A)"
  by code_simp

lemma fit_polynomial_bw_B:
  "fit_polynomial (np_polyfit lstsq_cramer) bw_B = Inr ((0, 0, 0), (0, 0, 0))"
  by code_simp

lemma search_around_poly_bw_B:
  "search_around_poly (np_polyfit lstsq_cramer) bw_B (Some fit_A) (Some fit_A) = Inl TypeError"
  by code_simp

lemma warp_frame_A: "warp_frame cv_plain frame_A = Inr (bw_A, identity3)"
  unfolding frame_A_def by (rule warp_frame_plain[OF bw_A_facts])

lemma warp_frame_B: "warp_frame cv_plain frame_B = Inr (bw_B, identity3)"
  unfolding frame_B_def by (rule warp_frame_plain[OF bw_B_facts])

lemma both_found_session_A: "both_found session_A"
  by (simp add: both_found_def session_A_def)

lemma pipeline_frame_A:
  "pipeline cv_plain (np_polyfit lstsq_cramer) new_session frame_A = (Inr frame_A, session_A)"
proof -
  have f: "fit_lanes (np_polyfit lstsq_cramer) new_session bw_A = Inr (fit_A, fit_A)"
    by (simp add: fit_lanes_def new_session_def new_Line_def fit_polynomial_bw_A)
  from curvature_in_meters_np_returns[OF bw_A_facts(3)] obtain lc rc d where
    cm: "curvature_in_meters (np_polyfit lstsq_cramer) bw_A fit_A fit_A = Inr (lc, rc, d)"
    by blast
  show ?thesis
    unfolding pipeline_return[OF warp_frame_A f cm]
    by (simp add: print_data_on_image_def draw_lines_on_image_def cv_plain_def Let_def
        new_session_def new_Line_def session_A_def)
qed

lemma pipeline_frame_B:
  "pipeline cv_plain (np_polyfit lstsq_cramer) session_A frame_B = (Inl TypeError, session_A)"
proof -
  have "fit_lanes (np_polyfit lstsq_cramer) session_A bw_B = Inl TypeError"
    unfolding fit_lanes_found[OF both_found_session_A]
    by (simp add: session_A_def search_around_poly_bw_B)
  with warp_frame_B show ?thesis by (rule pipeline_raise_fit)
qed





text \<open>
  C1 (as the code behaves). When both lanes are marked found and the search around the
  previous fits raises, \<open>pipeline\<close> raises the same error for that frame: it does not run
  the sliding-window search, whatever that search would find, and the session state is
  left as it was, both lanes still marked found with their previous fits.
\<close>

theorem prior_guided_failure_propagates:
  assumes "both_found st"
      and "warp_frame c img = Inr (bw, Minv)"
      and "search_around_poly polyfit bw (previous_fit (left_line st))
             (previous_fit (right_line st)) = Inl e"
  shows "pipeline c polyfit st img = (Inl e, st) \<and>
         both_found (snd (pipeline c polyfit st img))"
proof -
  have "fit_lanes polyfit st bw = Inl e"
    using assms(1,3) by (simp add: fit_lanes_found)
  with assms(2) have "pipeline c polyfit st img = (Inl e, st)"
    by (rule pipeline_raise_fit)
  with assms(1) show ?thesis by simp
qed

theorem prior_guided_failure_propagates_witness:
  "both_found session_A \<and>
   warp_frame cv_plain frame_B = Inr (bw_B, identity3) \<and>
   pipeline cv_plain (np_polyfit lstsq_cramer) session_A frame_B = (Inl TypeError, session_A)"
proof -
  have s: "search_around_poly (np_polyfit lstsq_cramer) bw_B
             (previous_fit (left_line session_A)) (previous_fit (right_line session_A)) =
           Inl TypeError"
    by (simp add: session_A_def search_around_poly_bw_B)
  from prior_guided_failure_propagates[OF both_found_session_A warp_frame_B s]
  show ?thesis by (simp add: both_found_session_A warp_frame_B)
qed

text \<open>
  C1 does not hold as stated. From a new session, frame A completes and marks both lanes
  found. On frame B the search around the previous fits selects no pixel and
  \<open>np.polyfit\<close> raises \<open>TypeError\<close>. The sliding-window search succeeds on the same
  frame, but \<open>pipeline\<close> does not fall back to it: it raises, and both lanes stay marked
  found.
\<close>

theorem no_fallback_counterexample:
  "pipeline cv_plain (np_polyfit lstsq_cramer) new_session frame_A = (Inr frame_A, session_A) \<and>
   both_found session_A \<and>
   warp_frame cv_plain frame_B = Inr (bw_B, identity3) \<and>
   fit_polynomial (np_polyfit lstsq_cramer) bw_B = Inr ((0, 0, 0), (0, 0, 0)) \<and>
   pipeline cv_plain (np_polyfit lstsq_cramer) session_A frame_B = (Inl TypeError, session_A)"
  by (simp add: pipeline_frame_A both_found_session_A warp_frame_B fit_polynomial_bw_B
      pipeline_frame_B)

text \<open>
  C10. Whenever \<open>pipeline\<close> returns, it has marked both lanes found and stored this frame's
  two fits, whichever search produced them. No call of \<open>pipeline\<close> resets a found flag.
  Hence after one completed frame both lanes are marked found at every later frame of the
  session, whatever the frames are and whether they complete or raise, and each of them
  is searched around the previous fits, never by sliding windows.
\<close>

theorem pipeline_update_unconditional:
  assumes "pipeline c polyfit st img = (Inr out, st')"
  shows "(\<exists>bw Minv lf rf. warp_frame c img = Inr (bw, Minv) \<and>
            fit_lanes polyfit st bw = Inr (lf, rf) \<and>
            previous_fit (left_line st') = Some lf \<and>
            previous_fit (right_line st') = Some rf) \<and>
         found (left_line st') \<and> found (right_line st') \<and>
         (\<forall>s im. (found (left_line s) \<longrightarrow> found (left_line (snd (pipeline c polyfit s im)))) \<and>
                 (found (right_line s) \<longrightarrow> found (right_line (snd (pipeline c polyfit s im))))) \<and>
         (\<forall>imgs. both_found (snd (run_frames c polyfit st' imgs))) \<and>
         (\<forall>imgs bw.
            fit_lanes polyfit (snd (run_frames c polyfit st' imgs)) bw =
              search_around_poly polyfit bw
                (previous_fit (left_line (snd (run_frames c polyfit st' imgs))))
                (previous_fit (right_line (snd (run_frames c polyfit st' imgs)))))"
proof -
  from pipeline_Inr_D[OF assms] obtain bw Minv lf rf where
    w: "warp_frame c img = Inr (bw, Minv)" and f: "fit_lanes polyfit st bw = Inr (lf, rf)"
    and st': "st' = st \<lparr> left_line := (left_line st) \<lparr> previous_fit := Some lf, found := True \<rparr>,
                         right_line := (right_line st) \<lparr> previous_fit := Some rf, found := True \<rparr> \<rparr>"
    by blast
  have p: "previous_fit (left_line st') = Some lf" "previous_fit (right_line st') = Some rf"
    and fd: "found (left_line st')" "found (right_line st')"
    by (simp_all add: st')
  have bf: "both_found st'" using fd by (simp add: both_found_def)
  have later: "both_found (snd (run_frames c polyfit st' imgs))" for imgs
    using bf by (rule run_frames_both_found)
  have search: "fit_lanes polyfit (snd (run_frames c polyfit st' imgs)) b =
      search_around_poly polyfit b
        (previous_fit (left_line (snd (run_frames c polyfit st' imgs))))
        (previous_fit (right_line (snd (run_frames c polyfit st' imgs))))" for imgs b
    using later by (rule fit_lanes_found)
  show ?thesis
    using w f p fd later search pipeline_found_left pipeline_found_right by blast
qed

theorem pipeline_update_unconditional_witness:
  "both_found (snd (pipeline cv_plain (np_polyfit lstsq_cramer) new_session frame_A)) \<and>
   previous_fit (left_line (snd (pipeline cv_plain (np_polyfit lstsq_cramer) new_session frame_A)))
     = Some fit_A \<and>
   both_found (snd (run_frames cv_plain (np_polyfit lstsq_cramer) session_A [frame_B]))"
proof -
  from pipeline_update_unconditional[OF pipeline_frame_A]
  have "\<forall>imgs. both_found (snd (run_frames cv_plain (np_polyfit lstsq_cramer) session_A imgs))"
    by blast
  then have "both_found (snd (run_frames cv_plain (np_polyfit lstsq_cramer) session_A [frame_B]))"
    by blast
  moreover have "previous_fit (left_line session_A) = Some fit_A"
    by (simp add: session_A_def)
  ultimately show ?thesis
    by (simp add: pipeline_frame_A both_found_session_A)
qed

subsection \<open>Curvature and lateral offset\<close>










lemma curverad_zero: "curverad (0, b, c) y = PInf"
proof -
  have "1 + b\<^sup>2 \<noteq> 0"
    using zero_le_power2[of b] by linarith
  then have "0 < (1 + b\<^sup>2) powr (3 / 2)"
    by simp
  then show ?thesis by (simp add: curverad_def np_divide_def)
qed

lemma curverad_not_NaN: "curverad f y \<noteq> NaN"
proof -
  obtain a b c where f: "f = (a, b, c)" by (cases f) auto
  have "1 + (2 * a * y * ym_per_pix + b)\<^sup>2 \<noteq> 0"
    using zero_le_power2[of "2 * a * y * ym_per_pix + b"] by linarith
  then have pos: "0 < (1 + (2 * a * y * ym_per_pix + b)\<^sup>2) powr (3 / 2)"
    by simp
  have "np_divide n d \<noteq> NaN" if "0 < n" for n d :: real
    using that by (simp add: np_divide_def)
  from this[OF pos] show ?thesis unfolding f curverad_def by simp
qed

lemma bw_E_shape: "shape0 bw_E = 3" "shape1 bw_E = 2"
  by (simp_all add: bw_E_def shape0_def shape1_def)

lemma metric_fit_straight:
  "metric_fit (np_polyfit lstsq_cramer) 3 (0, 0, 1) = Inr (0, 0, 37 / 7000)"
  by code_simp



text \<open>
  C8. When the fit in metres of a lane has leading coefficient exactly 0, the radius
  that \<open>curvature_in_meters\<close> reports for that lane is positive infinity: numpy's float
  division by zero returns \<open>inf\<close> and does not raise. For every fit the radius is
  never NaN, since the numerator is positive.
\<close>

theorem straight_lane_infinite_radius:
  assumes "0 < shape0 bw"
      and "metric_fit polyfit (shape0 bw) lf = Inr (al, bl, cl)"
      and "metric_fit polyfit (shape0 bw) rf = Inr (ar, br, cr)"
  shows "\<exists>lc rc d. curvature_in_meters polyfit bw lf rf = Inr (lc, rc, d) \<and>
           lc \<noteq> NaN \<and> rc \<noteq> NaN \<and>
           (al = 0 \<longrightarrow> lc = PInf) \<and> (ar = 0 \<longrightarrow> rc = PInf)"
proof -
  from np_max1_Inr[OF np_linspace0_nonempty[OF assms(1)]] obtain y where
    y: "np_max1 (np_linspace0 (shape0 bw)) = Inr y" by blast
  have c: "curvature_in_meters polyfit bw lf rf =
      Inr (curverad (al, bl, cl) y, curverad (ar, br, cr) y,
           dist_from_center (shape0 bw) (shape1 bw) lf rf)"
    by (simp add: curvature_in_meters_def Let_def assms(2,3) y)
  show ?thesis
    unfolding c using curverad_not_NaN curverad_zero by auto
qed

theorem straight_lane_infinite_radius_witness:
  "0 < shape0 bw_E \<and>
   metric_fit (np_polyfit lstsq_cramer) (shape0 bw_E) (0, 0, 1) = Inr (0, 0, 37 / 7000) \<and>
   (\<exists>d. curvature_in_meters (np_polyfit lstsq_cramer) bw_E (0, 0, 1) (0, 0, 1) =
          Inr (PInf, PInf, d))"
proof -
  have h: "0 < shape0 bw_E" by (simp add: bw_E_shape)
  have m: "metric_fit (np_polyfit lstsq_cramer) (shape0 bw_E) (0, 0, 1) = Inr (0, 0, 37 / 7000)"
    by (simp add: bw_E_shape metric_fit_straight)
  from straight_lane_infinite_radius[OF h m m] h m show ?thesis by auto
qed












end
